theory Spec2Isabelle
  imports Main "HOL-Library.Char_ord" "HOL-Library.List_Lexorder" "HOL-Library.Product_Lexorder"
begin

section \<open>File-level merge handling (mercurial/filemerge.py)\<close>

text \<open>
  A shallow embedding of \<^verbatim>\<open>src/mercurial/filemerge.py\<close>. Python names are kept; a
  leading underscore, which Isabelle does not allow, is written as the prefix \<open>u_\<close>
  (\<^verbatim>\<open>_picktool\<close> is \<open>u_picktool\<close>). Methods of file contexts carry the prefix
  \<open>fctx_\<close>. The translation marker \<^verbatim>\<open>_( )\<close> of i18n is the identity on
  message texts.
\<close>

subsection \<open>Python values, exceptions and strings\<close>

text \<open>
  Strategy functions are looked up in a dictionary and return tuples of mixed type
  (\<^verbatim>\<open>return False, 1, None\<close>); their results are Python values. \<open>truthy\<close> is
  Python's truth test, the one \<^verbatim>\<open>if res:\<close> and \<^verbatim>\<open>not r\<close> apply.
\<close>

datatype pyval = PyNone | PyBool bool | PyInt int | PyStr string | PyTuple "pyval list"

fun truthy :: "pyval \<Rightarrow> bool" where
  "truthy PyNone = False"
| "truthy (PyBool b) = b"
| "truthy (PyInt i) = (i \<noteq> 0)"
| "truthy (PyStr s) = (s \<noteq> [])"
| "truthy (PyTuple xs) = (xs \<noteq> [])"

datatype error =
    Abort string
  | AbortMergeToolError string
  | InMemoryMergeConflictsError string "string list"
  | ConfigError string
  | InterventionRequired string
  | ResponseExpected
  | AttributeError
  | TypeError
  | ValueError
  | IndexError
  | IOError

text \<open>Truth of an optional string (\<^verbatim>\<open>if force:\<close>): neither \<^verbatim>\<open>None\<close> nor empty.\<close>

definition truthy_str :: "string option \<Rightarrow> bool" where
  "truthy_str s = (case s of None \<Rightarrow> False | Some v \<Rightarrow> v \<noteq> [])"

definition strval :: "string option \<Rightarrow> string" where
  "strval s = (case s of None \<Rightarrow> [] | Some v \<Rightarrow> v)"

text \<open>\<^verbatim>\<open>s.startswith(pre)\<close> and \<^verbatim>\<open>sub in s\<close> on strings.\<close>

definition startswith :: "string \<Rightarrow> string \<Rightarrow> bool" where
  "startswith s pre = (take (length pre) s = pre)"

fun contains :: "string \<Rightarrow> string \<Rightarrow> bool" where
  "contains sub [] = (sub = [])"
| "contains sub (c # cs) = (startswith (c # cs) sub \<or> contains sub cs)"

subsection \<open>The registry of internal tools\<close>

text \<open>
  \<^verbatim>\<open>registrar.internalmerge\<close> is not part of the sources at hand; its three merge types
  (\<^verbatim>\<open>nomerge = None\<close>, \<^verbatim>\<open>mergeonly\<close>, \<^verbatim>\<open>fullmerge\<close>) are an enumeration here. The
  module's dictionaries \<^verbatim>\<open>internals\<close> and \<^verbatim>\<open>internalsdoc\<close> are maps from names to
  entries; \<open>'f\<close> is the type of an entry (a function object with its attributes).
\<close>

datatype mergetype = nomerge | mergeonly | fullmerge

type_synonym 'f registry = "string \<rightharpoonup> 'f"

text \<open>
  \<^verbatim>\<open>loadinternalmerge(ui, extname, registrarobj)\<close>: the loop over
  \<^verbatim>\<open>registrarobj._table.iteritems()\<close>. The table is a dictionary, given as the list of
  its items in iteration order; the state is the pair \<^verbatim>\<open>(internals, internalsdoc)\<close>.
  \<^verbatim>\<open>ui\<close> and \<^verbatim>\<open>extname\<close> are not used by the body.
\<close>

fun loadinternalmerge ::
  "(string \<times> 'f) list \<Rightarrow> 'f registry \<times> 'f registry \<Rightarrow> 'f registry \<times> 'f registry" where
  "loadinternalmerge [] st = st"
| "loadinternalmerge ((name, func) # rest) (internals, internalsdoc) =
     (let fullname = '':'' @ name;
          internals1 = internals(fullname \<mapsto> func);
          internals2 = internals1(''internal:'' @ name \<mapsto> func);
          internalsdoc1 = internalsdoc(fullname \<mapsto> func)
      in loadinternalmerge rest (internals2, internalsdoc1))"

subsection \<open>The working copy, the user interface and the host\<close>

text \<open>
  Files live in a store. A file of an on-disk working context and a backup or temporary
  file are at \<open>Disk\<close> with their absolute path; a file of an in-memory working context
  is at \<open>Mem\<close> with its repository-relative path.
\<close>

datatype loc = Mem string | Disk string

record wfile =
  fdata :: string
  fflags :: string

type_synonym fsmap = "loc \<rightharpoonup> wfile"

text \<open>
  The keyword arguments of a call of \<^verbatim>\<open>simplemerge.simplemerge\<close>, and the labels a
  caller hands down: \<^verbatim>\<open>None\<close>, the module's own list object
  \<^verbatim>\<open>_defaultconflictlabels\<close> (which \<^verbatim>\<open>labels.append("base")\<close> changes in place), or
  a list of the caller's.
\<close>

record smopts =
  sm_quiet :: bool
  sm_label :: "string list option"
  sm_mode :: "string option"
  sm_localorother :: "string option"

datatype labels = NoLabels | DefaultLabels | Labels "string list"

text \<open>
  What the user and the operating system see of a run, in order: the messages written
  through \<^verbatim>\<open>ui\<close>, the prompts, the commands run by \<^verbatim>\<open>ui.system\<close>, the temporary
  files made by \<^verbatim>\<open>tempfile.mkstemp\<close> and the calls of the simple-merge primitive.
\<close>

datatype event =
    Warn string
  | Note string
  | Status string
  | Debug string
  | Write string
  | Prompt string
  | System string
  | Mkstemp string
  | Simplemerge smopts

record world =
  fs :: fsmap
  trace :: "event list"
  defaultconflictlabels :: "string list"

definition emit :: "event \<Rightarrow> world \<Rightarrow> world" where
  "emit e w = w\<lparr>trace := trace w @ [e]\<rparr>"

text \<open>
  The collaborators the module consumes (\<^verbatim>\<open>ui\<close>, \<^verbatim>\<open>util\<close>, \<^verbatim>\<open>repo\<close>,
  \<^verbatim>\<open>match\<close>, \<^verbatim>\<open>scmutil\<close>, \<^verbatim>\<open>simplemerge\<close>, \<^verbatim>\<open>tempfile\<close>, \<^verbatim>\<open>templater\<close>,
  \<^verbatim>\<open>encoding.environ\<close>) are parameters: one record of their functions, passed where the
  source passes \<^verbatim>\<open>repo\<close> or \<^verbatim>\<open>ui\<close>. \<open>ui_config\<close> and \<open>ui_configbool\<close> are the
  calls without a default, \<open>ui_config_default\<close> and \<open>ui_configbool_default\<close> the calls
  that pass one. \<open>ui_configbool\<close> may raise (\<^verbatim>\<open>error.ConfigError\<close> is caught in
  \<^verbatim>\<open>_premerge\<close>), \<open>ui_promptchoice\<close> may raise (\<^verbatim>\<open>error.ResponseExpected\<close> is caught
  in \<^verbatim>\<open>_iprompt\<close>). \<open>simplemerge_merge\<close> maps the options and the data of local, base
  and other to the status and the merged text; \<open>ui_system\<close> maps the command, the working
  directory, the environment and the store to the exit code and the store the tool leaves.
\<close>

record host =
  ui_config :: "string \<Rightarrow> string \<Rightarrow> string option"
  ui_config_default :: "string \<Rightarrow> string \<Rightarrow> string \<Rightarrow> string"
  ui_configbool :: "string \<Rightarrow> string \<Rightarrow> error + bool"
  ui_configbool_default :: "string \<Rightarrow> string \<Rightarrow> bool \<Rightarrow> error + bool"
  ui_configlist :: "string \<Rightarrow> string \<Rightarrow> string list"
  ui_configitems :: "string \<Rightarrow> (string \<times> string) list"
  ui_promptchoice :: "string \<Rightarrow> int \<Rightarrow> error + int"
  ui_system :: "string \<Rightarrow> string \<Rightarrow> (string \<times> pyval) list \<Rightarrow> fsmap \<Rightarrow> int \<times> fsmap"
  environ_get :: "string \<Rightarrow> string option"
  util_findexe :: "string \<Rightarrow> string option"
  util_lookupreg :: "string \<Rightarrow> string option \<Rightarrow> string option"
  util_expandpath :: "string \<Rightarrow> string"
  util_shellquote :: "string \<Rightarrow> string"
  util_localpath :: "string \<Rightarrow> string"
  util_gui :: bool
  util_interpolate :: "(string \<times> string) list \<Rightarrow> string \<Rightarrow> string"
  util_ellipsis :: "string \<Rightarrow> nat \<Rightarrow> string"
  util_binary :: "string \<Rightarrow> bool"
  match_match :: "string \<Rightarrow> string \<Rightarrow> string \<Rightarrow> bool"
  scmutil_origpath :: "string \<Rightarrow> string"
  repo_root :: string
  repo_wjoin :: "string \<Rightarrow> string"
  repo_pathto :: "string \<Rightarrow> string"
  repo_wvfs_base :: string
  repo_vfs_base :: string
  repo_wvfs_join :: "string \<Rightarrow> string"
  repo_wwritedata :: "string \<Rightarrow> string \<Rightarrow> string"
  simplemerge_merge :: "smopts \<Rightarrow> string option \<Rightarrow> string option \<Rightarrow> string option \<Rightarrow> int \<times> string"
  tempfile_mkstemp :: "string \<Rightarrow> string \<Rightarrow> fsmap \<Rightarrow> string"
  os_path_splitext :: "string \<Rightarrow> string \<times> string"
  os_path_basename :: "string \<Rightarrow> string"
  templater_unquotestring :: "string option \<Rightarrow> string"
  templater_render :: "string \<Rightarrow> string \<Rightarrow> string"
  node_short :: "string \<Rightarrow> string"

text \<open>
  A computation of the module takes the world and returns a value or an exception, and
  the world it leaves.
\<close>

type_synonym 'a run = "world \<Rightarrow> (error + 'a) \<times> world"

definition andthen :: "'a run \<Rightarrow> ('a \<Rightarrow> 'b run) \<Rightarrow> 'b run" where
  "andthen m f w = (case m w of (Inl e, w1) \<Rightarrow> (Inl e, w1) | (Inr x, w1) \<Rightarrow> f x w1)"

definition pure_result :: "error + 'a \<Rightarrow> 'a run" where
  "pure_result r w = (r, w)"

subsection \<open>File contexts\<close>

text \<open>
  A change context has a name (what \<^verbatim>\<open>str(ctx)\<close> prints) and knows whether it is in
  memory. The file contexts the module meets: a committed file (its data and flags are
  fixed), a file of the on-disk working context, a file of the in-memory working
  context (\<^verbatim>\<open>context.overlayworkingfilectx\<close>), a file at an arbitrary path
  (\<^verbatim>\<open>context.arbitraryfilectx\<close>, the backup), and \<^verbatim>\<open>absentfilectx\<close>. Only
  \<^verbatim>\<open>absentfilectx\<close> is defined in this module; its methods are the equations for
  \<open>Absentfilectx\<close> below.
\<close>

text \<open>
  Modelled from the spec: the methods of the four present kinds (\<^verbatim>\<open>context.py\<close> is not
  part of the sources at hand) follow the FileVersion contract of the specification:
  \<^verbatim>\<open>path\<close>, \<^verbatim>\<open>flags\<close>, \<^verbatim>\<open>data()\<close>, \<^verbatim>\<open>is_binary\<close>, \<^verbatim>\<open>is_absent\<close>,
  \<^verbatim>\<open>cmp(other)\<close> (true iff the contents differ); \<^verbatim>\<open>write\<close> and \<^verbatim>\<open>remove\<close> change
  the store at the file's place, and reading the data of a file that is not in the
  store raises. \<^verbatim>\<open>wctx[path]\<close> is the file of the working context at that path.
\<close>

datatype changectx = Changectx (ctxname: string) (isinmemory: bool)

datatype filectx =
    Filectx changectx string string string
  | Workingfilectx changectx string
  | Overlayworkingfilectx changectx string
  | Arbitraryfilectx string
  | Absentfilectx changectx string

fun fctx_path :: "filectx \<Rightarrow> string" where
  "fctx_path (Filectx c p d fl) = p"
| "fctx_path (Workingfilectx c p) = p"
| "fctx_path (Overlayworkingfilectx c p) = p"
| "fctx_path (Arbitraryfilectx p) = p"
| "fctx_path (Absentfilectx c p) = p"

fun fctx_isabsent :: "filectx \<Rightarrow> bool" where
  "fctx_isabsent (Absentfilectx c p) = True"
| "fctx_isabsent f = False"

fun fctx_changectx :: "filectx \<Rightarrow> error + changectx" where
  "fctx_changectx (Filectx c p d fl) = Inr c"
| "fctx_changectx (Workingfilectx c p) = Inr c"
| "fctx_changectx (Overlayworkingfilectx c p) = Inr c"
| "fctx_changectx (Arbitraryfilectx p) = Inl AttributeError"
| "fctx_changectx (Absentfilectx c p) = Inr c"

fun floc :: "host \<Rightarrow> filectx \<Rightarrow> loc option" where
  "floc h (Workingfilectx c p) = Some (Disk (repo_wjoin h p))"
| "floc h (Overlayworkingfilectx c p) = Some (Mem p)"
| "floc h (Arbitraryfilectx p) = Some (Disk p)"
| "floc h (Filectx c p d fl) = None"
| "floc h (Absentfilectx c p) = None"

fun fctx_flags :: "host \<Rightarrow> filectx \<Rightarrow> world \<Rightarrow> string" where
  "fctx_flags h (Absentfilectx c p) w = ''''"
| "fctx_flags h (Filectx c p d fl) w = fl"
| "fctx_flags h f w =
     (case floc h f of None \<Rightarrow> ''''
      | Some l \<Rightarrow> (case fs w l of None \<Rightarrow> '''' | Some x \<Rightarrow> fflags x))"

fun fctx_data :: "host \<Rightarrow> filectx \<Rightarrow> world \<Rightarrow> error + string option" where
  "fctx_data h (Absentfilectx c p) w = Inr None"
| "fctx_data h (Filectx c p d fl) w = Inr (Some d)"
| "fctx_data h f w =
     (case floc h f of None \<Rightarrow> Inl IOError
      | Some l \<Rightarrow> (case fs w l of None \<Rightarrow> Inl IOError | Some x \<Rightarrow> Inr (Some (fdata x))))"

fun fctx_size :: "host \<Rightarrow> filectx \<Rightarrow> world \<Rightarrow> error + nat option" where
  "fctx_size h (Absentfilectx c p) w = Inr None"
| "fctx_size h f w =
     (case fctx_data h f w of Inl e \<Rightarrow> Inl e | Inr d \<Rightarrow> Inr (map_option length d))"

fun fctx_isbinary :: "host \<Rightarrow> filectx \<Rightarrow> world \<Rightarrow> bool" where
  "fctx_isbinary h (Absentfilectx c p) w = False"
| "fctx_isbinary h f w =
     (case fctx_data h f w of Inr (Some d) \<Rightarrow> util_binary h d | _ \<Rightarrow> False)"

text \<open>
  \<^verbatim>\<open>absentfilectx.cmp\<close> is
  \<^verbatim>\<open>not (fctx.isabsent() and fctx.ctx() == self.ctx() and fctx.path() == self.path())\<close>.
  When \<^verbatim>\<open>fctx\<close> is present the conjunction stops at its first operand and the result
  is \<^verbatim>\<open>True\<close>. When \<^verbatim>\<open>fctx\<close> is absent, \<^verbatim>\<open>fctx.ctx()\<close> is evaluated next: the class
  defines \<^verbatim>\<open>changectx()\<close> and no \<^verbatim>\<open>ctx()\<close>, so the call raises.
\<close>

fun fctx_cmp :: "host \<Rightarrow> filectx \<Rightarrow> filectx \<Rightarrow> world \<Rightarrow> error + bool" where
  "fctx_cmp h (Absentfilectx c p) fctx w =
     (if fctx_isabsent fctx then Inl AttributeError else Inr True)"
| "fctx_cmp h self fctx w =
     (case fctx_data h self w of
        Inl e \<Rightarrow> Inl e
      | Inr d1 \<Rightarrow> (case fctx_data h fctx w of Inl e \<Rightarrow> Inl e | Inr d2 \<Rightarrow> Inr (d1 \<noteq> d2)))"

definition fctx_write :: "host \<Rightarrow> filectx \<Rightarrow> string option \<Rightarrow> string \<Rightarrow> unit run" where
  "fctx_write h f d fl w =
     (case floc h f of
        None \<Rightarrow> (Inl AttributeError, w)
      | Some l \<Rightarrow>
          (case d of
             None \<Rightarrow> (Inl TypeError, w)
           | Some bytes \<Rightarrow> (Inr (), w\<lparr>fs := (fs w)(l \<mapsto> \<lparr>fdata = bytes, fflags = fl\<rparr>)\<rparr>)))"

definition fctx_remove :: "host \<Rightarrow> filectx \<Rightarrow> unit run" where
  "fctx_remove h f w =
     (case floc h f of
        None \<Rightarrow> (Inl AttributeError, w)
      | Some l \<Rightarrow> (Inr (), w\<lparr>fs := (fs w)(l := None)\<rparr>))"

definition wctx_getitem :: "changectx \<Rightarrow> string \<Rightarrow> filectx" where
  "wctx_getitem wctx p =
     (if isinmemory wctx then Overlayworkingfilectx wctx p else Workingfilectx wctx p)"

definition u_underlyingfctxifabsent :: "filectx \<Rightarrow> filectx" where
  "u_underlyingfctxifabsent f =
     (case f of Absentfilectx c p \<Rightarrow> wctx_getitem c p | _ \<Rightarrow> f)"

definition u_workingpath :: "host \<Rightarrow> filectx \<Rightarrow> string" where
  "u_workingpath h ctx = repo_wjoin h (fctx_path ctx)"

subsection \<open>Tool configuration and the tool picker\<close>

definition u_toolstr :: "host \<Rightarrow> string \<Rightarrow> string \<Rightarrow> string option" where
  "u_toolstr h tool part = ui_config h ''merge-tools'' (tool @ ''.'' @ part)"

definition u_toolstr_default :: "host \<Rightarrow> string \<Rightarrow> string \<Rightarrow> string \<Rightarrow> string" where
  "u_toolstr_default h tool part dflt = ui_config_default h ''merge-tools'' (tool @ ''.'' @ part) dflt"

definition u_toolbool :: "host \<Rightarrow> string \<Rightarrow> string \<Rightarrow> error + bool" where
  "u_toolbool h tool part = ui_configbool h ''merge-tools'' (tool @ ''.'' @ part)"

definition u_toolbool_default :: "host \<Rightarrow> string \<Rightarrow> string \<Rightarrow> bool \<Rightarrow> error + bool" where
  "u_toolbool_default h tool part dflt =
     ui_configbool_default h ''merge-tools'' (tool @ ''.'' @ part) dflt"

definition u_toollist :: "host \<Rightarrow> string \<Rightarrow> string \<Rightarrow> string list" where
  "u_toollist h tool part = ui_configlist h ''merge-tools'' (tool @ ''.'' @ part)"

text \<open>
  \<^verbatim>\<open>findexternaltool\<close>: one round of its loop over \<^verbatim>\<open>("regkey", "regkeyalt")\<close>
  gives the executable found through that registry key, if any.
\<close>

definition regprobe :: "host \<Rightarrow> string \<Rightarrow> string \<Rightarrow> string option" where
  "regprobe h tool kn =
     (let k = u_toolstr h tool kn in
      if \<not> truthy_str k then None
      else
        (let p = util_lookupreg h (strval k) (u_toolstr h tool ''regname'') in
         if truthy_str p then
           (let p1 = util_findexe h (strval p @ u_toolstr_default h tool ''regappend'' '''') in
            if truthy_str p1 then p1 else None)
         else None))"

definition findexternaltool :: "host \<Rightarrow> string \<Rightarrow> string option" where
  "findexternaltool h tool =
     (case regprobe h tool ''regkey'' of
        Some p \<Rightarrow> Some p
      | None \<Rightarrow>
          (case regprobe h tool ''regkeyalt'' of
             Some p \<Rightarrow> Some p
           | None \<Rightarrow>
               (let exe = u_toolstr_default h tool ''executable'' tool in
                util_findexe h (util_expandpath h exe))))"

definition u_findtool :: "host \<Rightarrow> 'f registry \<Rightarrow> string \<Rightarrow> string option" where
  "u_findtool h internals tool =
     (if tool \<in> dom internals then Some tool else findexternaltool h tool)"

text \<open>
  An entry of \<^verbatim>\<open>internals\<close> is a function object with the attributes the decorator
  \<^verbatim>\<open>internaltool\<close> sets. The tool picker reads \<^verbatim>\<open>mergetype\<close> only, so it takes the
  registry with the attribute as a function \<open>mt\<close> of the entry.
\<close>

definition supportscd :: "'f registry \<Rightarrow> ('f \<Rightarrow> mergetype) \<Rightarrow> string option \<Rightarrow> bool" where
  "supportscd internals mt tool =
     (case tool of
        None \<Rightarrow> False
      | Some t \<Rightarrow> (case internals t of None \<Rightarrow> False | Some f \<Rightarrow> mt f = nomerge))"

text \<open>
  \<^verbatim>\<open>check(tool, pat, symlink, binary, changedelete)\<close>, the capability filter. The
  \<^verbatim>\<open>elif\<close> chain evaluates a tool's boolean only when the file property before
  \<^verbatim>\<open>and\<close> holds.
\<close>

definition check ::
  "host \<Rightarrow> 'f registry \<Rightarrow> ('f \<Rightarrow> mergetype) \<Rightarrow> string \<Rightarrow> string option \<Rightarrow> bool \<Rightarrow> bool \<Rightarrow> bool
     \<Rightarrow> bool run" where
  "check h internals mt tool pat symlink binary changedelete w =
     (let tmsg = (if truthy_str pat then tool @ '' (for pattern '' @ strval pat @ '')'' else tool) in
      if \<not> truthy_str (u_findtool h internals tool) then
        (if truthy_str pat
         then (Inr False, emit (Warn (''couldn't find merge tool '' @ tmsg @ ''\<newline>'')) w)
         else (Inr False, emit (Note (''couldn't find merge tool '' @ tmsg @ ''\<newline>'')) w))
      else
        (case (if symlink then u_toolbool h tool ''symlink'' else Inr True) of
           Inl e \<Rightarrow> (Inl e, w)
         | Inr False \<Rightarrow>
             (Inr False, emit (Warn (''tool '' @ tmsg @ '' can't handle symlinks\<newline>'')) w)
         | Inr True \<Rightarrow>
             (case (if binary then u_toolbool h tool ''binary'' else Inr True) of
                Inl e \<Rightarrow> (Inl e, w)
              | Inr False \<Rightarrow>
                  (Inr False, emit (Warn (''tool '' @ tmsg @ '' can't handle binary\<newline>'')) w)
              | Inr True \<Rightarrow>
                  (if changedelete \<and> \<not> supportscd internals mt (Some tool) then (Inr False, w)
                   else
                     (case (if \<not> util_gui h then u_toolbool h tool ''gui'' else Inr False) of
                        Inl e \<Rightarrow> (Inl e, w)
                      | Inr True \<Rightarrow>
                          (Inr False, emit (Warn (''tool '' @ tmsg @ '' requires a GUI\<newline>'')) w)
                      | Inr False \<Rightarrow> (Inr True, w))))))"

text \<open>
  The tool's path as \<^verbatim>\<open>_picktool\<close> returns it after a successful check:
  \<^verbatim>\<open>util.shellquote(_findtool(ui, tool))\<close>.
\<close>

definition quotedtool :: "host \<Rightarrow> 'f registry \<Rightarrow> string \<Rightarrow> error + string \<times> string option" where
  "quotedtool h internals tool =
     (case u_findtool h internals tool of
        None \<Rightarrow> Inl TypeError
      | Some toolpath \<Rightarrow> Inr (tool, Some (util_shellquote h toolpath)))"

text \<open>The loop over \<^verbatim>\<open>ui.configitems("merge-patterns")\<close>; \<open>None\<close> when it falls through.\<close>

fun pick_pattern ::
  "host \<Rightarrow> 'f registry \<Rightarrow> ('f \<Rightarrow> mergetype) \<Rightarrow> string \<Rightarrow> bool \<Rightarrow> bool \<Rightarrow> (string \<times> string) list
     \<Rightarrow> (string \<times> string option) option run" where
  "pick_pattern h internals mt path symlink changedelete [] w = (Inr None, w)"
| "pick_pattern h internals mt path symlink changedelete ((pat, tool) # rest) w =
     (if match_match h (repo_root h) pat path then
        (case check h internals mt tool (Some pat) symlink False changedelete w of
           (Inl e, w1) \<Rightarrow> (Inl e, w1)
         | (Inr True, w1) \<Rightarrow>
             (case quotedtool h internals tool of
                Inl e \<Rightarrow> (Inl e, w1)
              | Inr res \<Rightarrow> (Inr (Some res), w1))
         | (Inr False, w1) \<Rightarrow> pick_pattern h internals mt path symlink changedelete rest w1)
      else pick_pattern h internals mt path symlink changedelete rest w)"

text \<open>
  Python's \<^verbatim>\<open>int(s)\<close> on a configuration value: \<^verbatim>\<open>None\<close> raises \<^verbatim>\<open>TypeError\<close>; a
  string is stripped of surrounding blanks and read as an optional sign and decimal
  digits; anything else raises \<^verbatim>\<open>ValueError\<close>.
\<close>

definition isblank :: "char \<Rightarrow> bool" where
  "isblank c = (c \<in> set [CHR '' '', CHR 0x09, CHR 0x0A, CHR 0x0B, CHR 0x0C, CHR 0x0D])"

definition digitval :: "char \<Rightarrow> int option" where
  "digitval c =
     (if of_char c \<ge> (48::nat) \<and> of_char c \<le> (57::nat) then Some (int (of_char c) - 48) else None)"

definition digits_value :: "string \<Rightarrow> int option" where
  "digits_value s =
     (if s = [] \<or> list_ex (\<lambda>c. digitval c = None) s then None
      else Some (foldl (\<lambda>acc c. 10 * acc + (case digitval c of None \<Rightarrow> 0 | Some d \<Rightarrow> d)) 0 s))"

definition pyint :: "string option \<Rightarrow> error + int" where
  "pyint v =
     (case v of
        None \<Rightarrow> Inl TypeError
      | Some s \<Rightarrow>
          (let t = rev (dropWhile isblank (rev (dropWhile isblank s)));
               body = (case t of c # cs \<Rightarrow> (if c = CHR ''-'' \<or> c = CHR ''+'' then cs else t) | [] \<Rightarrow> t);
               neg = (case t of c # cs \<Rightarrow> c = CHR ''-'' | [] \<Rightarrow> False)
           in case digits_value body of
                None \<Rightarrow> Inl ValueError
              | Some n \<Rightarrow> Inr (if neg then - n else n)))"

text \<open>
  The loop over \<^verbatim>\<open>ui.configitems("merge-tools")\<close> that fills the dictionary
  \<^verbatim>\<open>tools\<close> (tool name to priority, as the list of its items in insertion order) and
  the set \<^verbatim>\<open>disabled\<close>.
\<close>

fun collect_tools ::
  "host \<Rightarrow> (string \<times> string) list \<Rightarrow> (string \<times> int) list \<times> string set
     \<Rightarrow> error + (string \<times> int) list \<times> string set" where
  "collect_tools h [] acc = Inr acc"
| "collect_tools h ((k, v) # rest) (tools, disabled) =
     (let t = takeWhile (\<lambda>c. c \<noteq> CHR ''.'') k in
      case (if t \<notin> fst ` set tools
            then (case pyint (u_toolstr h t ''priority'') of
                    Inl e \<Rightarrow> Inl e
                  | Inr p \<Rightarrow> Inr (tools @ [(t, p)]))
            else Inr tools) of
        Inl e \<Rightarrow> Inl e
      | Inr tools1 \<Rightarrow>
          (case u_toolbool h t ''disabled'' of
             Inl e \<Rightarrow> Inl e
           | Inr d \<Rightarrow> collect_tools h rest (tools1, if d then insert t disabled else disabled)))"

text \<open>
  \<^verbatim>\<open>sorted([(-p, tool) for tool, p in tools.items() if tool not in disabled])\<close>: the
  pairs are ordered by negated priority, then by name. The loop that follows reads the
  names only.
\<close>

definition sorted_tools :: "(string \<times> int) list \<Rightarrow> string set \<Rightarrow> string list" where
  "sorted_tools tools disabled =
     map snd (sort (map (\<lambda>(tool, p). (- p, tool)) (filter (\<lambda>(tool, p). tool \<notin> disabled) tools)))"

text \<open>The loop \<^verbatim>\<open>for p, t in tools\<close> over the candidates; \<open>None\<close> when it falls through.\<close>

fun pick_first ::
  "host \<Rightarrow> 'f registry \<Rightarrow> ('f \<Rightarrow> mergetype) \<Rightarrow> bool \<Rightarrow> bool \<Rightarrow> bool \<Rightarrow> string list
     \<Rightarrow> (string \<times> string option) option run" where
  "pick_first h internals mt symlink binary changedelete [] w = (Inr None, w)"
| "pick_first h internals mt symlink binary changedelete (t # rest) w =
     (case check h internals mt t None symlink binary changedelete w of
        (Inl e, w1) \<Rightarrow> (Inl e, w1)
      | (Inr True, w1) \<Rightarrow>
          (case quotedtool h internals t of
             Inl e \<Rightarrow> (Inl e, w1)
           | Inr res \<Rightarrow> (Inr (Some res), w1))
      | (Inr False, w1) \<Rightarrow> pick_first h internals mt symlink binary changedelete rest w1)"

text \<open>
  The candidates of the priority pool once \<^verbatim>\<open>ui.merge\<close> did not return at once:
  \<^verbatim>\<open>tools.insert(0, (None, uimerge))\<close> when \<^verbatim>\<open>uimerge\<close> is set, and
  \<^verbatim>\<open>tools.append((None, "hgmerge"))\<close>.
\<close>

definition pool_candidates :: "string option \<Rightarrow> string list \<Rightarrow> string list" where
  "pool_candidates uimerge sorted_names =
     (if truthy_str uimerge then [strval uimerge] else []) @ sorted_names @ [''hgmerge'']"

text \<open>
  \<^verbatim>\<open>_picktool\<close> from \<^verbatim>\<open># then merge tools\<close> on: the priority pool and the last
  resort.
\<close>

definition picktool_pool ::
  "host \<Rightarrow> 'f registry \<Rightarrow> ('f \<Rightarrow> mergetype) \<Rightarrow> string \<Rightarrow> bool \<Rightarrow> bool \<Rightarrow> bool
     \<Rightarrow> (string \<times> string option) run" where
  "picktool_pool h internals mt path binary symlink changedelete w =
     (case collect_tools h (ui_configitems h ''merge-tools'') ([], {}) of
        Inl e \<Rightarrow> (Inl e, w)
      | Inr (tools, disabled) \<Rightarrow>
          (let names = map fst tools;
               uimerge = ui_config h ''ui'' ''merge''
           in if truthy_str uimerge \<and> strval uimerge \<notin> set names \<and> \<not> changedelete
              then (Inr (strval uimerge, uimerge), w)
              else
                (case pick_first h internals mt symlink binary changedelete
                        (pool_candidates uimerge (sorted_tools tools disabled)) w of
                   (Inl e, w1) \<Rightarrow> (Inl e, w1)
                 | (Inr (Some res), w1) \<Rightarrow> (Inr res, w1)
                 | (Inr None, w1) \<Rightarrow>
                     (if symlink \<or> binary \<or> changedelete then
                        (Inr ('':prompt'', None),
                         if \<not> changedelete
                              \<and> length (pool_candidates uimerge (sorted_tools tools disabled)) \<noteq> 0
                         then emit (Warn (''no tool found to merge '' @ path @ ''\<newline>'')) w1
                         else w1)
                      else (Inr ('':merge'', None), w1)))))"

definition picktool_patterns ::
  "host \<Rightarrow> 'f registry \<Rightarrow> ('f \<Rightarrow> mergetype) \<Rightarrow> string \<Rightarrow> bool \<Rightarrow> bool \<Rightarrow> bool
     \<Rightarrow> (string \<times> string option) run" where
  "picktool_patterns h internals mt path binary symlink changedelete w =
     (case pick_pattern h internals mt path symlink changedelete
             (ui_configitems h ''merge-patterns'') w of
        (Inl e, w1) \<Rightarrow> (Inl e, w1)
      | (Inr (Some res), w1) \<Rightarrow> (Inr res, w1)
      | (Inr None, w1) \<Rightarrow> picktool_pool h internals mt path binary symlink changedelete w1)"

definition picktool_hgmerge ::
  "host \<Rightarrow> 'f registry \<Rightarrow> ('f \<Rightarrow> mergetype) \<Rightarrow> string \<Rightarrow> bool \<Rightarrow> bool \<Rightarrow> bool
     \<Rightarrow> (string \<times> string option) run" where
  "picktool_hgmerge h internals mt path binary symlink changedelete w =
     (let hgmerge = environ_get h ''HGMERGE'' in
      if truthy_str hgmerge then
        (if changedelete \<and> \<not> supportscd internals mt hgmerge then (Inr ('':prompt'', None), w)
         else (Inr (strval hgmerge, hgmerge), w))
      else picktool_patterns h internals mt path binary symlink changedelete w)"

definition u_picktool ::
  "host \<Rightarrow> 'f registry \<Rightarrow> ('f \<Rightarrow> mergetype) \<Rightarrow> string \<Rightarrow> bool \<Rightarrow> bool \<Rightarrow> bool
     \<Rightarrow> (string \<times> string option) run" where
  "u_picktool h internals mt path binary symlink changedelete w =
     (let force = ui_config h ''ui'' ''forcemerge'' in
      if truthy_str force then
        (let toolpath = u_findtool h internals (strval force) in
         if changedelete \<and> \<not> supportscd internals mt toolpath then (Inr ('':prompt'', None), w)
         else if truthy_str toolpath
              then (Inr (strval force, Some (util_shellquote h (strval toolpath))), w)
              else (Inr (strval force, force), w))
      else picktool_hgmerge h internals mt path binary symlink changedelete w)"

subsection \<open>Files on disk and end-of-line styles\<close>

text \<open>
  \<^verbatim>\<open>util.readfile\<close>, \<^verbatim>\<open>util.writefile\<close>, \<^verbatim>\<open>util.copyfile\<close> and \<^verbatim>\<open>util.unlink\<close>
  act on the store at an absolute path; reading, copying or unlinking a file that is
  not there raises.
\<close>

definition util_readfile :: "string \<Rightarrow> string run" where
  "util_readfile p w = (case fs w (Disk p) of None \<Rightarrow> (Inl IOError, w) | Some x \<Rightarrow> (Inr (fdata x), w))"

definition util_writefile :: "string \<Rightarrow> string \<Rightarrow> world \<Rightarrow> world" where
  "util_writefile p bytes w =
     w\<lparr>fs := (fs w)(Disk p \<mapsto>
           \<lparr>fdata = bytes, fflags = (case fs w (Disk p) of None \<Rightarrow> '''' | Some x \<Rightarrow> fflags x)\<rparr>)\<rparr>"

definition util_copyfile :: "string \<Rightarrow> string \<Rightarrow> unit run" where
  "util_copyfile src dest w =
     (case fs w (Disk src) of
        None \<Rightarrow> (Inl IOError, w)
      | Some x \<Rightarrow> (Inr (), w\<lparr>fs := (fs w)(Disk dest \<mapsto> x)\<rparr>))"

definition util_unlink :: "string \<Rightarrow> unit run" where
  "util_unlink p w =
     (case fs w (Disk p) of
        None \<Rightarrow> (Inl IOError, w)
      | Some x \<Rightarrow> (Inr (), w\<lparr>fs := (fs w)(Disk p := None)\<rparr>))"

definition u_eoltype :: "string \<Rightarrow> string option" where
  "u_eoltype bytes =
     (if contains [CHR 0x00] bytes then None
      else if contains [CHR 0x0D, CHR 0x0A] bytes then Some [CHR 0x0D, CHR 0x0A]
      else if contains [CHR 0x0D] bytes then Some [CHR 0x0D]
      else if contains [CHR 0x0A] bytes then Some [CHR 0x0A]
      else None)"

text \<open>\<^verbatim>\<open>data.replace(old, new)\<close> for a non-empty \<^verbatim>\<open>old\<close>, from left to right.\<close>

fun replace_nonempty :: "string \<Rightarrow> string \<Rightarrow> string \<Rightarrow> string" where
  "replace_nonempty old new [] = []"
| "replace_nonempty old new (c # cs) =
     (if old \<noteq> [] \<and> startswith (c # cs) old
      then new @ replace_nonempty old new (drop (length old - 1) cs)
      else c # replace_nonempty old new cs)"

definition pyreplace :: "string \<Rightarrow> string \<Rightarrow> string \<Rightarrow> string" where
  "pyreplace s old new =
     (if old = [] then new @ concat (map (\<lambda>c. c # new) s) else replace_nonempty old new s)"

definition u_matcheol :: "host \<Rightarrow> string \<Rightarrow> filectx \<Rightarrow> unit run" where
  "u_matcheol h file back w =
     (case fctx_data h back w of
        Inl e \<Rightarrow> (Inl e, w)
      | Inr None \<Rightarrow> (Inl TypeError, w)
      | Inr (Some backdata) \<Rightarrow>
          (case u_eoltype backdata of
             None \<Rightarrow> (Inr (), w)
           | Some tostyle \<Rightarrow>
               (case util_readfile file w of
                  (Inl e, w1) \<Rightarrow> (Inl e, w1)
                | (Inr bytes, w1) \<Rightarrow>
                    (case u_eoltype bytes of
                       None \<Rightarrow> (Inr (), w1)
                     | Some style \<Rightarrow>
                         (let newdata = pyreplace bytes style tostyle in
                          if newdata \<noteq> bytes then (Inr (), util_writefile file newdata w1)
                          else (Inr (), w1))))))"

subsection \<open>Internal strategies\<close>

text \<open>
  The arguments of a strategy function after \<^verbatim>\<open>repo\<close>. \<open>a_toolconf\<close> is
  \<^verbatim>\<open>(tool, toolpath, binary, symlink)\<close>; \<open>a_files\<close> is the backup \<^verbatim>\<open>back\<close> of
  \<^verbatim>\<open>files = (None, None, None, back)\<close>. A no-merge strategy is called without
  \<^verbatim>\<open>files\<close> and does not read the field. This development embeds the strategies
  \<^verbatim>\<open>abort\<close>, \<^verbatim>\<open>local\<close>, \<^verbatim>\<open>other\<close>, \<^verbatim>\<open>fail\<close>, \<^verbatim>\<open>union\<close>, \<^verbatim>\<open>merge\<close>,
  \<^verbatim>\<open>merge3\<close>, \<^verbatim>\<open>merge-local\<close>, \<^verbatim>\<open>merge-other\<close> and the two external drivers.
\<close>

type_synonym toolconf = "string \<times> string option \<times> bool \<times> bool"

record toolargs =
  a_mynode :: string
  a_orig :: string
  a_fcd :: filectx
  a_fco :: filectx
  a_fca :: filectx
  a_toolconf :: toolconf
  a_files :: "filectx option"
  a_labels :: labels

definition labels_value :: "labels \<Rightarrow> world \<Rightarrow> string list option" where
  "labels_value l w =
     (case l of NoLabels \<Rightarrow> None | DefaultLabels \<Rightarrow> Some (defaultconflictlabels w) | Labels xs \<Rightarrow> Some xs)"

text \<open>\<^verbatim>\<open>if not labels: labels = _defaultconflictlabels\<close>.\<close>

definition labels_or_default :: "labels \<Rightarrow> world \<Rightarrow> labels" where
  "labels_or_default l w =
     (case labels_value l w of None \<Rightarrow> DefaultLabels | Some xs \<Rightarrow> (if xs = [] then DefaultLabels else l))"

text \<open>
  \<^verbatim>\<open>if len(labels) < 3: labels.append("base")\<close>: the append changes the list object,
  which for the default labels is the module's.
\<close>

definition labels_with_base :: "labels \<Rightarrow> labels run" where
  "labels_with_base l w =
     (case l of
        NoLabels \<Rightarrow> (Inl TypeError, w)
      | DefaultLabels \<Rightarrow>
          (if length (defaultconflictlabels w) < 3
           then (Inr DefaultLabels, w\<lparr>defaultconflictlabels := defaultconflictlabels w @ [''base'']\<rparr>)
           else (Inr DefaultLabels, w))
      | Labels xs \<Rightarrow> (if length xs < 3 then (Inr (Labels (xs @ [''base''])), w) else (Inr (Labels xs), w)))"

text \<open>
  Modelled from the spec: the simple-merge primitive (\<^verbatim>\<open>simplemerge.py\<close> is not part of
  the sources at hand) takes local, ancestor and other with the labels and the mode,
  returns 0 on a clean merge or non-zero on conflicts, and writes the result into
  local.
\<close>

definition simplemerge :: "host \<Rightarrow> filectx \<Rightarrow> filectx \<Rightarrow> filectx \<Rightarrow> smopts \<Rightarrow> int run" where
  "simplemerge h localctx basectx otherctx opts w =
     (case fctx_data h localctx w of
        Inl e \<Rightarrow> (Inl e, w)
      | Inr dl \<Rightarrow>
          (case fctx_data h basectx w of
             Inl e \<Rightarrow> (Inl e, w)
           | Inr db \<Rightarrow>
               (case fctx_data h otherctx w of
                  Inl e \<Rightarrow> (Inl e, w)
                | Inr dother \<Rightarrow>
                    (case fctx_write h localctx (Some (snd (simplemerge_merge h opts dl db dother)))
                            (fctx_flags h localctx w) (emit (Simplemerge opts) w) of
                       (Inl e, w1) \<Rightarrow> (Inl e, w1)
                     | (Inr u, w1) \<Rightarrow> (Inr (fst (simplemerge_merge h opts dl db dother)), w1)))))"

definition u_merge :: "host \<Rightarrow> toolargs \<Rightarrow> string \<Rightarrow> pyval run" where
  "u_merge h a mode w =
     (case simplemerge h (a_fcd a) (a_fca a) (a_fco a)
             \<lparr>sm_quiet = False, sm_label = labels_value (a_labels a) w, sm_mode = Some mode,
              sm_localorother = None\<rparr> w of
        (Inl e, w1) \<Rightarrow> (Inl e, w1)
      | (Inr r, w1) \<Rightarrow> (Inr (PyTuple [PyBool True, PyInt r, PyBool False]), w1))"

definition u_iunion :: "host \<Rightarrow> toolargs \<Rightarrow> pyval run" where
  "u_iunion h a = u_merge h a ''union''"

definition u_imerge :: "host \<Rightarrow> toolargs \<Rightarrow> pyval run" where
  "u_imerge h a = u_merge h a ''merge''"

definition u_imerge3 :: "host \<Rightarrow> toolargs \<Rightarrow> pyval run" where
  "u_imerge3 h a w =
     (case labels_with_base (labels_or_default (a_labels a) w) w of
        (Inl e, w1) \<Rightarrow> (Inl e, w1)
      | (Inr l, w1) \<Rightarrow> u_imerge h (a\<lparr>a_labels := l\<rparr>) w1)"

definition u_iabort :: "host \<Rightarrow> toolargs \<Rightarrow> pyval run" where
  "u_iabort h a w =
     (case fctx_changectx (a_fcd a) of
        Inl e \<Rightarrow> (Inl e, w)
      | Inr c \<Rightarrow>
          (if \<not> isinmemory c then (Inl (Abort ''--tool :abort only works with in-memory merge''), w)
           else
             (case u_imerge h a w of
                (Inl e, w1) \<Rightarrow> (Inl e, w1)
              | (Inr res, w1) \<Rightarrow>
                  (if truthy res
                   then (Inl (AbortMergeToolError ''hit merge conflicts, and --tool :abort passed''), w1)
                   else (Inr res, w1)))))"

definition u_ilocal :: "host \<Rightarrow> toolargs \<Rightarrow> pyval run" where
  "u_ilocal h a w = (Inr (PyTuple [PyInt 0, PyBool (fctx_isabsent (a_fcd a))]), w)"

definition u_iother :: "host \<Rightarrow> toolargs \<Rightarrow> pyval run" where
  "u_iother h a w =
     (if fctx_isabsent (a_fco a) then
        (case fctx_remove h (u_underlyingfctxifabsent (a_fcd a)) w of
           (Inl e, w1) \<Rightarrow> (Inl e, w1)
         | (Inr u, w1) \<Rightarrow> (Inr (PyTuple [PyInt 0, PyBool True]), w1))
      else
        (case fctx_data h (a_fco a) w of
           Inl e \<Rightarrow> (Inl e, w)
         | Inr d \<Rightarrow>
             (case fctx_write h (u_underlyingfctxifabsent (a_fcd a)) d (fctx_flags h (a_fco a) w) w of
                (Inl e, w1) \<Rightarrow> (Inl e, w1)
              | (Inr u, w1) \<Rightarrow> (Inr (PyTuple [PyInt 0, PyBool False]), w1))))"

definition u_ifail :: "host \<Rightarrow> toolargs \<Rightarrow> pyval run" where
  "u_ifail h a w =
     (if fctx_isabsent (a_fcd a) then
        (case fctx_data h (a_fco a) w of
           Inl e \<Rightarrow> (Inl e, w)
         | Inr d \<Rightarrow>
             (case fctx_write h (u_underlyingfctxifabsent (a_fcd a)) d (fctx_flags h (a_fco a) w) w of
                (Inl e, w1) \<Rightarrow> (Inl e, w1)
              | (Inr u, w1) \<Rightarrow> (Inr (PyTuple [PyInt 1, PyBool False]), w1)))
      else (Inr (PyTuple [PyInt 1, PyBool False]), w))"


definition u_imergeauto :: "host \<Rightarrow> toolargs \<Rightarrow> string \<Rightarrow> pyval run" where
  "u_imergeauto h a localorother w =
     (case simplemerge h (a_fcd a) (a_fca a) (a_fco a)
             \<lparr>sm_quiet = False, sm_label = labels_value (a_labels a) w, sm_mode = None,
              sm_localorother = Some localorother\<rparr> w of
        (Inl e, w1) \<Rightarrow> (Inl e, w1)
      | (Inr r, w1) \<Rightarrow> (Inr (PyTuple [PyBool True, PyInt r]), w1))"

text \<open>
  \<^verbatim>\<open>success, status = _imergeauto(...)\<close> and \<^verbatim>\<open>needcheck, r, deleted = func(...)\<close>:
  unpacking a value that is not a sequence of that length raises.
\<close>

definition unpack2 :: "pyval \<Rightarrow> error + pyval \<times> pyval" where
  "unpack2 v = (case v of PyTuple [x, y] \<Rightarrow> Inr (x, y) | PyTuple xs \<Rightarrow> Inl ValueError | _ \<Rightarrow> Inl TypeError)"

definition unpack3 :: "pyval \<Rightarrow> error + pyval \<times> pyval \<times> pyval" where
  "unpack3 v =
     (case v of PyTuple [x, y, z] \<Rightarrow> Inr (x, y, z) | PyTuple xs \<Rightarrow> Inl ValueError | _ \<Rightarrow> Inl TypeError)"

definition imergepick :: "host \<Rightarrow> toolargs \<Rightarrow> string \<Rightarrow> pyval run" where
  "imergepick h a localorother w =
     (case u_imergeauto h a localorother w of
        (Inl e, w1) \<Rightarrow> (Inl e, w1)
      | (Inr res, w1) \<Rightarrow>
          (case unpack2 res of
             Inl e \<Rightarrow> (Inl e, w1)
           | Inr (success, status) \<Rightarrow> (Inr (PyTuple [success, status, PyBool False]), w1)))"

definition u_imergelocal :: "host \<Rightarrow> toolargs \<Rightarrow> pyval run" where
  "u_imergelocal h a = imergepick h a ''local''"

definition u_imergeother :: "host \<Rightarrow> toolargs \<Rightarrow> pyval run" where
  "u_imergeother h a = imergepick h a ''other''"

subsection \<open>External drivers\<close>

definition u_xmergeimm :: "host \<Rightarrow> toolargs \<Rightarrow> pyval run" where
  "u_xmergeimm h a w =
     (Inl (InMemoryMergeConflictsError ''in-memory merge does not support external merge tools''
             [fctx_path (a_fcd a)]), w)"

text \<open>
  \<^verbatim>\<open>temp(prefix, ctx)\<close> of \<^verbatim>\<open>_maketempfiles\<close>: \<^verbatim>\<open>tempfile.mkstemp\<close> creates an empty
  file under a name of the host's choice, then the filtered data is written to it.
\<close>

definition temp :: "host \<Rightarrow> string \<Rightarrow> filectx \<Rightarrow> string run" where
  "temp h prefix ctx w =
     (let pre = os_path_basename h (fst (os_path_splitext h (fctx_path ctx))) @ ''~'' @ prefix @ ''.'';
          name = tempfile_mkstemp h pre (snd (os_path_splitext h (fctx_path ctx))) (fs w);
          w1 = emit (Mkstemp name) (w\<lparr>fs := (fs w)(Disk name \<mapsto> \<lparr>fdata = '''', fflags = ''''\<rparr>)\<rparr>)
      in case fctx_data h ctx w1 of
           Inl e \<Rightarrow> (Inl e, w1)
         | Inr None \<Rightarrow> (Inl TypeError, w1)
         | Inr (Some d) \<Rightarrow>
             (Inr name, util_writefile name (repo_wwritedata h (fctx_path ctx) d) w1))"

definition u_maketempfiles :: "host \<Rightarrow> filectx \<Rightarrow> filectx \<Rightarrow> (string \<times> string) run" where
  "u_maketempfiles h fco fca w =
     (case temp h ''base'' fca w of
        (Inl e, w1) \<Rightarrow> (Inl e, w1)
      | (Inr b, w1) \<Rightarrow>
          (case temp h ''other'' fco w1 of
             (Inl e, w2) \<Rightarrow> (Inl e, w2)
           | (Inr c, w2) \<Rightarrow> (Inr (b, c), w2)))"

text \<open>\<^verbatim>\<open>"%d" % r\<close>.\<close>

fun nat_str :: "nat \<Rightarrow> string" where
  "nat_str n =
     (if n < 10 then [char_of (48 + n)] else nat_str (n div 10) @ [char_of (48 + n mod 10)])"

declare nat_str.simps [simp del]

definition int_str :: "int \<Rightarrow> string" where
  "int_str i = (if i < 0 then ''-'' @ nat_str (nat (- i)) else nat_str (nat i))"

text \<open>The \<^verbatim>\<open>try\<close> block of \<^verbatim>\<open>_xmerge\<close>, with the temporary files \<open>b\<close> and \<open>c\<close>.\<close>

definition xmerge_run :: "host \<Rightarrow> toolargs \<Rightarrow> string \<Rightarrow> string \<Rightarrow> pyval run" where
  "xmerge_run h a b c w =
     (case a_toolconf a of
        (tool, toolpath, binary, symlink) \<Rightarrow>
          (case fctx_changectx (a_fco a) of
             Inl e \<Rightarrow> (Inl e, w)
           | Inr co \<Rightarrow>
               (case fctx_changectx (a_fca a) of
                  Inl e \<Rightarrow> (Inl e, w)
                | Inr ca \<Rightarrow>
                    (let env = [(''HG_FILE'', PyStr (fctx_path (a_fcd a))),
                                (''HG_MY_NODE'', PyStr (node_short h (a_mynode a))),
                                (''HG_OTHER_NODE'', PyStr (ctxname co)),
                                (''HG_BASE_NODE'', PyStr (ctxname ca)),
                                (''HG_MY_ISLINK'', PyBool (contains ''l'' (fctx_flags h (a_fcd a) w))),
                                (''HG_OTHER_ISLINK'', PyBool (contains ''l'' (fctx_flags h (a_fco a) w))),
                                (''HG_BASE_ISLINK'', PyBool (contains ''l'' (fctx_flags h (a_fca a) w)))]
                     in case u_toolstr h tool ''args'' of
                          None \<Rightarrow> (Inl TypeError, w)
                        | Some args \<Rightarrow>
                            (case (if contains ''$output'' args
                                   then (case a_files a of
                                           None \<Rightarrow> Inl AttributeError
                                         | Some back \<Rightarrow>
                                             Inr (repo_wvfs_join h (fctx_path back), u_workingpath h (a_fcd a)))
                                   else Inr (u_workingpath h (a_fcd a), '''')) of
                               Inl e \<Rightarrow> (Inl e, w)
                             | Inr (local, out) \<Rightarrow>
                                 (let replace = [(''local'', local), (''base'', b), (''other'', c), (''output'', out)];
                                      args1 = util_interpolate h
                                                (map (\<lambda>(k, v). (k, util_shellquote h (util_localpath h v))) replace)
                                                args
                                  in case toolpath of
                                       None \<Rightarrow> (Inl TypeError, w)
                                     | Some tp \<Rightarrow>
                                         (case u_toolbool h tool ''gui'' of
                                            Inl e \<Rightarrow> (Inl e, w)
                                          | Inr isgui \<Rightarrow>
                                              (let cmd = tp @ '' '' @ args1;
                                                   w1 = (if isgui
                                                         then emit (Status (''running merge tool '' @ tool
                                                                 @ '' for file '' @ fctx_path (a_fcd a) @ ''\<newline>'')) w
                                                         else w);
                                                   w2 = emit (System cmd)
                                                          (emit (Debug (''launching merge tool: '' @ cmd @ ''\<newline>'')) w1);
                                                   res = ui_system h cmd (repo_root h) env (fs w2);
                                                   w3 = emit (Debug (''merge tool returned: '' @ int_str (fst res)
                                                                @ ''\<newline>'')) (w2\<lparr>fs := snd res\<rparr>)
                                               in (Inr (PyTuple [PyBool True, PyInt (fst res), PyBool False]), w3)))))))))"

text \<open>
  \<^verbatim>\<open>_xmerge\<close>: the refusal of change/delete conflicts, the temporary files, the
  \<^verbatim>\<open>try\<close> block and its \<^verbatim>\<open>finally\<close>, which unlinks both temporary files.
\<close>

definition u_xmerge :: "host \<Rightarrow> toolargs \<Rightarrow> pyval run" where
  "u_xmerge h a w =
     (case a_toolconf a of
        (tool, toolpath, binary, symlink) \<Rightarrow>
          (if fctx_isabsent (a_fcd a) \<or> fctx_isabsent (a_fco a) then
             (Inr (PyTuple [PyBool False, PyInt 1, PyNone]),
              emit (Warn (''warning: '' @ tool @ '' cannot merge change/delete conflict for ''
                          @ fctx_path (a_fcd a) @ ''\<newline>'')) w)
           else
             (case u_maketempfiles h (a_fco a) (a_fca a) w of
                (Inl e, w1) \<Rightarrow> (Inl e, w1)
              | (Inr (b, c), w1) \<Rightarrow>
                  (case xmerge_run h a b c w1 of
                     (res, w2) \<Rightarrow>
                       (case util_unlink b w2 of
                          (Inl e, w3) \<Rightarrow> (Inl e, w3)
                        | (Inr u, w3) \<Rightarrow>
                            (case util_unlink c w3 of
                               (Inl e, w4) \<Rightarrow> (Inl e, w4)
                             | (Inr u, w4) \<Rightarrow> (res, w4)))))))"

subsection \<open>Conflict labels\<close>

definition ljust :: "string \<Rightarrow> nat \<Rightarrow> string" where
  "ljust s n = s @ replicate (n - length s) (CHR '' '')"

text \<open>
  \<^verbatim>\<open>_formatconflictmarker\<close>. The lines that choose the context to render
  (\<^verbatim>\<open>ctx.p1()\<close> when \<^verbatim>\<open>ctx.node()\<close> is \<^verbatim>\<open>None\<close>) and render the template belong to
  the templater: \<open>templater_render\<close> gives their result for the template and the
  context. \<^verbatim>\<open>mark.splitlines()[0]\<close> of a non-empty \<^verbatim>\<open>mark\<close> is its text before the
  first line break.
\<close>

definition u_formatconflictmarker :: "host \<Rightarrow> changectx \<Rightarrow> string \<Rightarrow> string \<Rightarrow> nat \<Rightarrow> string" where
  "u_formatconflictmarker h ctx template label pad =
     (let templateresult = templater_render h template (ctxname ctx);
          label1 = ljust (label @ '':'') (pad + 1);
          mark = label1 @ '' '' @ templateresult;
          mark1 = (if mark \<noteq> [] then takeWhile (\<lambda>c. c \<noteq> CHR 0x0A \<and> c \<noteq> CHR 0x0D) mark else mark)
      in util_ellipsis h mark1 (80 - 8))"

definition u_formatlabels ::
  "host \<Rightarrow> filectx \<Rightarrow> filectx \<Rightarrow> filectx \<Rightarrow> string list \<Rightarrow> error + string list" where
  "u_formatlabels h fcd fco fca ls =
     (case fctx_changectx fcd of
        Inl e \<Rightarrow> Inl e
      | Inr cd \<Rightarrow>
          (case fctx_changectx fco of
             Inl e \<Rightarrow> Inl e
           | Inr co \<Rightarrow>
               (case fctx_changectx fca of
                  Inl e \<Rightarrow> Inl e
                | Inr ca \<Rightarrow>
                    (let tmpl = templater_unquotestring h (ui_config h ''ui'' ''mergemarkertemplate'') in
                     if ls = [] then Inl ValueError
                     else if length ls < 2 then Inl IndexError
                     else
                       (let pad = fold max (map length ls) 0;
                            newlabels = [u_formatconflictmarker h cd tmpl (ls ! 0) pad,
                                         u_formatconflictmarker h co tmpl (ls ! 1) pad]
                        in if length ls > 2
                           then Inr (newlabels @ [u_formatconflictmarker h ca tmpl (ls ! 2) pad])
                           else Inr newlabels)))))"

subsection \<open>Backup and premerge\<close>

definition u_restorebackup :: "host \<Rightarrow> filectx \<Rightarrow> filectx option \<Rightarrow> unit run" where
  "u_restorebackup h fcd back w =
     (case back of
        None \<Rightarrow> (Inl AttributeError, w)
      | Some b \<Rightarrow>
          (case fctx_data h b w of
             Inl e \<Rightarrow> (Inl e, w)
           | Inr d \<Rightarrow> fctx_write h fcd d (fctx_flags h fcd w) w))"

definition is_overlay :: "filectx \<Rightarrow> bool" where
  "is_overlay f = (case f of Overlayworkingfilectx c p \<Rightarrow> True | _ \<Rightarrow> False)"

definition u_makebackup :: "host \<Rightarrow> changectx \<Rightarrow> filectx \<Rightarrow> bool \<Rightarrow> filectx option run" where
  "u_makebackup h wctx fcd premerge w =
     (if fctx_isabsent fcd then (Inr None, w)
      else
        (let a = u_workingpath h fcd;
             back = scmutil_origpath h a;
             inworkingdir = (startswith back (repo_wvfs_base h) \<and> \<not> startswith back (repo_vfs_base h))
         in if is_overlay fcd \<and> inworkingdir then
              (let relpath = drop (length (repo_wvfs_base h) + 1) back in
               if premerge then
                 (case fctx_data h fcd w of
                    Inl e \<Rightarrow> (Inl e, w)
                  | Inr d \<Rightarrow>
                      (case fctx_write h (wctx_getitem wctx relpath) d (fctx_flags h fcd w) w of
                         (Inl e, w1) \<Rightarrow> (Inl e, w1)
                       | (Inr u, w1) \<Rightarrow> (Inr (Some (wctx_getitem wctx relpath)), w1)))
               else (Inr (Some (wctx_getitem wctx relpath)), w))
            else if premerge then
              (if is_overlay fcd then
                 (case fctx_data h fcd w of
                    Inl e \<Rightarrow> (Inl e, w)
                  | Inr None \<Rightarrow> (Inl TypeError, w)
                  | Inr (Some d) \<Rightarrow> (Inr (Some (Arbitraryfilectx back)), util_writefile back d w))
               else
                 (case util_copyfile a back w of
                    (Inl e, w1) \<Rightarrow> (Inl e, w1)
                  | (Inr u, w1) \<Rightarrow> (Inr (Some (Arbitraryfilectx back)), w1)))
            else (Inr (Some (Arbitraryfilectx back)), w)))"

text \<open>\<^verbatim>\<open>s.lower()\<close> on a byte string.\<close>

definition pylower :: "string \<Rightarrow> string" where
  "pylower s =
     map (\<lambda>c. if of_char c \<ge> (65::nat) \<and> of_char c \<le> (90::nat) then char_of (of_char c + (32::nat)) else c) s"

definition validkeep :: "string list" where
  "validkeep = [''keep'', ''keep-merge3'']"

text \<open>
  The \<^verbatim>\<open>try\<close>/\<^verbatim>\<open>except error.ConfigError\<close> of \<^verbatim>\<open>_premerge\<close> that reads the policy: a
  boolean, or one of the strings of \<^verbatim>\<open>validkeep\<close>.
\<close>

definition premerge_policy :: "host \<Rightarrow> string \<Rightarrow> bool \<Rightarrow> error + pyval" where
  "premerge_policy h tool binary =
     (case u_toolbool_default h tool ''premerge'' (\<not> binary) of
        Inr b \<Rightarrow> Inr (PyBool b)
      | Inl (ConfigError m) \<Rightarrow>
          (let premerge = pylower (u_toolstr_default h tool ''premerge'' '''') in
           if premerge \<notin> set validkeep
           then Inl (ConfigError (tool @ ''.premerge not valid ('' @ [CHR 0x27] @ premerge @ [CHR 0x27]
                        @ '' is neither boolean nor 'keep', 'keep-merge3')''))
           else Inr (PyStr premerge))
      | Inl e \<Rightarrow> Inl e)"

definition u_premerge :: "host \<Rightarrow> toolargs \<Rightarrow> int run" where
  "u_premerge h a w =
     (case a_toolconf a of
        (tool, toolpath, binary, symlink) \<Rightarrow>
          (if symlink \<or> fctx_isabsent (a_fcd a) \<or> fctx_isabsent (a_fco a) then (Inr 1, w)
           else
             (case premerge_policy h tool binary of
                Inl e \<Rightarrow> (Inl e, w)
              | Inr premerge \<Rightarrow>
                  (if truthy premerge then
                     (case (if premerge = PyStr ''keep-merge3''
                            then labels_with_base (labels_or_default (a_labels a) w) w
                            else (Inr (a_labels a), w)) of
                        (Inl e, w1) \<Rightarrow> (Inl e, w1)
                      | (Inr l, w1) \<Rightarrow>
                          (case simplemerge h (a_fcd a) (a_fca a) (a_fco a)
                                  \<lparr>sm_quiet = True, sm_label = labels_value l w1, sm_mode = None,
                                   sm_localorother = None\<rparr> w1 of
                             (Inl e, w2) \<Rightarrow> (Inl e, w2)
                           | (Inr r, w2) \<Rightarrow>
                               (if \<not> truthy (PyInt r)
                                then (Inr 0, emit (Debug '' premerge successful\<newline>'') w2)
                                else if premerge \<notin> PyStr ` set validkeep then
                                  (case u_restorebackup h (a_fcd a) (a_files a) w2 of
                                     (Inl e, w3) \<Rightarrow> (Inl e, w3)
                                   | (Inr u, w3) \<Rightarrow> (Inr 1, w3))
                                else (Inr 1, w2))))
                   else (Inr 1, w)))))"

subsection \<open>Post-check\<close>

text \<open>
  \<^verbatim>\<open>re.search("^(<<<<<<< .*|=======|>>>>>>> .*)$", data, re.MULTILINE)\<close>. With
  \<^verbatim>\<open>re.MULTILINE\<close>, \<^verbatim>\<open>^\<close> matches at the start of the data and after every newline,
  \<^verbatim>\<open>$\<close> at its end and before every newline, and \<^verbatim>\<open>.\<close> matches every character but
  the newline: the search succeeds iff one of the lines of \<^verbatim>\<open>data.split("\n")\<close> is
  \<^verbatim>\<open>=======\<close> or starts with \<^verbatim>\<open><<<<<<<\<close> and a blank or with \<^verbatim>\<open>>>>>>>>\<close> and a
  blank.
\<close>

fun split_nl :: "string \<Rightarrow> string list" where
  "split_nl [] = [[]]"
| "split_nl (c # cs) =
     (if c = CHR 0x0A then [] # split_nl cs
      else (case split_nl cs of l # ls \<Rightarrow> (c # l) # ls | [] \<Rightarrow> [[c]]))"

definition marker_line :: "string \<Rightarrow> bool" where
  "marker_line l = (startswith l ''<<<<<<< '' \<or> l = ''======='' \<or> startswith l ''>>>>>>> '')"

definition conflict_search :: "string \<Rightarrow> bool" where
  "conflict_search bytes = list_ex marker_line (split_nl bytes)"

text \<open>The four steps of \<^verbatim>\<open>_check\<close>, in the order of the source.\<close>

definition check_conflicts :: "host \<Rightarrow> pyval \<Rightarrow> string \<Rightarrow> filectx \<Rightarrow> pyval run" where
  "check_conflicts h r tool fcd w =
     (if truthy r then (Inr r, w)
      else
        (case u_toolbool h tool ''checkconflicts'' of
           Inl e \<Rightarrow> (Inl e, w)
         | Inr cc \<Rightarrow>
             (if cc \<or> ''conflicts'' \<in> set (u_toollist h tool ''check'') then
                (case fctx_data h fcd w of
                   Inl e \<Rightarrow> (Inl e, w)
                 | Inr None \<Rightarrow> (Inl TypeError, w)
                 | Inr (Some bytes) \<Rightarrow> (if conflict_search bytes then (Inr (PyInt 1), w) else (Inr r, w)))
              else (Inr r, w))))"

definition check_prompt :: "host \<Rightarrow> pyval \<Rightarrow> string \<Rightarrow> string \<Rightarrow> (bool \<times> pyval) run" where
  "check_prompt h r tool fd w =
     (if ''prompt'' \<in> set (u_toollist h tool ''check'') then
        (let msg = ''was merge of '' @ [CHR 0x27] @ fd @ [CHR 0x27] @ '' successful (yn)?$$ &Yes $$ &No'' in
         case ui_promptchoice h msg 1 of
           Inl e \<Rightarrow> (Inl e, emit (Prompt msg) w)
         | Inr choice \<Rightarrow> (Inr (True, if choice \<noteq> 0 then PyInt 1 else r), emit (Prompt msg) w))
      else (Inr (False, r), w))"

definition check_changed ::
  "host \<Rightarrow> bool \<Rightarrow> pyval \<Rightarrow> string \<Rightarrow> filectx \<Rightarrow> filectx option \<Rightarrow> pyval run" where
  "check_changed h checked r tool fcd back w =
     (if truthy r \<or> checked then (Inr r, w)
      else
        (case u_toolbool h tool ''checkchanged'' of
           Inl e \<Rightarrow> (Inl e, w)
         | Inr cc \<Rightarrow>
             (if cc \<or> ''changed'' \<in> set (u_toollist h tool ''check'') then
                (case back of
                   None \<Rightarrow> (Inr r, w)
                 | Some b \<Rightarrow>
                     (case fctx_cmp h fcd b w of
                        Inl e \<Rightarrow> (Inl e, w)
                      | Inr True \<Rightarrow> (Inr r, w)
                      | Inr False \<Rightarrow>
                          (let msg = '' output file '' @ fctx_path fcd @ '' appears unchanged\<newline>''
                                       @ ''was merge successful (yn)?$$ &Yes $$ &No'' in
                           case ui_promptchoice h msg 1 of
                             Inl e \<Rightarrow> (Inl e, emit (Prompt msg) w)
                           | Inr choice \<Rightarrow>
                               (Inr (if choice \<noteq> 0 then PyInt 1 else r), emit (Prompt msg) w))))
              else (Inr r, w))))"

definition check_fixeol :: "host \<Rightarrow> string \<Rightarrow> filectx \<Rightarrow> filectx option \<Rightarrow> unit run" where
  "check_fixeol h tool fcd back w =
     (case back of
        None \<Rightarrow> (Inr (), w)
      | Some b \<Rightarrow>
          (case u_toolbool h tool ''fixeol'' of
             Inl e \<Rightarrow> (Inl e, w)
           | Inr fix \<Rightarrow> (if fix then u_matcheol h (u_workingpath h fcd) b w else (Inr (), w))))"

definition u_check :: "host \<Rightarrow> pyval \<Rightarrow> string \<Rightarrow> filectx \<Rightarrow> filectx option \<Rightarrow> pyval run" where
  "u_check h r tool fcd back =
     andthen (check_conflicts h r tool fcd) (\<lambda>r1.
     andthen (check_prompt h r1 tool (fctx_path fcd)) (\<lambda>(checked, r2).
     andthen (check_changed h checked r2 tool fcd back) (\<lambda>r3.
     andthen (check_fixeol h tool fcd back) (\<lambda>u. pure_result (Inr r3)))))"

subsection \<open>The orchestrator\<close>

definition u_haltmerge :: "'a run" where
  "u_haltmerge w = (Inl (InterventionRequired ''merge halted after failed merge (see hg resolve)''), w)"

definition u_onfilemergefailure :: "host \<Rightarrow> unit run" where
  "u_onfilemergefailure h w =
     (let action = ui_config h ''merge'' ''on-failure'' in
      case (if action = Some ''prompt'' then
              (let msg = ''continue merge operation (yn)?$$ &Yes $$ &No'' in
               case ui_promptchoice h msg 0 of
                 Inl e \<Rightarrow> (Inl e, emit (Prompt msg) w)
               | Inr choice \<Rightarrow>
                   (if choice = 1 then u_haltmerge (emit (Prompt msg) w) else (Inr (), emit (Prompt msg) w)))
            else (Inr (), w)) of
        (Inl e, w1) \<Rightarrow> (Inl e, w1)
      | (Inr u, w1) \<Rightarrow> (if action = Some ''halt'' then u_haltmerge w1 else (Inr (), w1)))"

text \<open>
  \<^verbatim>\<open>onfailure % relfd\<close>: a format with one string argument. The failure messages of
  this module use \<^verbatim>\<open>%s\<close> only; \<^verbatim>\<open>%%\<close> is a percent sign, a second \<^verbatim>\<open>%s\<close> or none
  at all raises \<^verbatim>\<open>TypeError\<close>, and another conversion is refused.
\<close>

fun format1 :: "string \<Rightarrow> string \<Rightarrow> bool \<Rightarrow> error + string" where
  "format1 [] arg used = (if used then Inr [] else Inl TypeError)"
| "format1 [c] arg used =
     (if c = CHR ''%'' then Inl ValueError else if used then Inr [c] else Inl TypeError)"
| "format1 (c # d # rest) arg used =
     (if c = CHR ''%'' then
        (if d = CHR ''%'' then map_sum id (\<lambda>s. CHR ''%'' # s) (format1 rest arg used)
         else if d = CHR ''s'' then
           (if used then Inl TypeError else map_sum id (\<lambda>s. arg @ s) (format1 rest arg True))
         else Inl ValueError)
      else map_sum id (\<lambda>s. c # s) (format1 (d # rest) arg used))"

text \<open>
  An entry of \<^verbatim>\<open>internals\<close>: the function with the attributes \<^verbatim>\<open>mergetype\<close>,
  \<^verbatim>\<open>onfailure\<close> and \<^verbatim>\<open>precheck\<close> set by the decorator.
\<close>

record toolentry =
  e_func :: "host \<Rightarrow> toolargs \<Rightarrow> pyval run"
  e_mergetype :: mergetype
  e_onfailure :: "string option"
  e_precheck :: "(host \<Rightarrow> toolargs \<Rightarrow> bool run) option"

text \<open>
  The report of a failure, shared by the precheck and the merge proper:
  \<^verbatim>\<open>if onfailure: if wctx.isinmemory(): raise ...; ui.warn(onfailure % relfd)\<close>.
\<close>

definition report_failure :: "changectx \<Rightarrow> string option \<Rightarrow> string \<Rightarrow> filectx \<Rightarrow> unit run" where
  "report_failure wctx onfailure relfd fcd w =
     (if truthy_str onfailure then
        (if isinmemory wctx then
           (Inl (InMemoryMergeConflictsError ''in-memory merge does not support merge conflicts''
                   [fctx_path fcd]), w)
         else
           (case format1 (strval onfailure) relfd False of
              Inl e \<Rightarrow> (Inl e, w)
            | Inr msg \<Rightarrow> (Inr (), emit (Warn msg) w)))
      else (Inr (), w))"

text \<open>
  The first statements of the \<^verbatim>\<open>try\<close> block of \<^verbatim>\<open>_filemerge\<close>, which settle the
  labels.
\<close>

definition format_step :: "host \<Rightarrow> toolargs \<Rightarrow> labels run" where
  "format_step h a w =
     (let markerstyle = ui_config h ''ui'' ''mergemarkers'';
          l = labels_or_default (a_labels a) w
      in if markerstyle \<noteq> Some ''basic'' then
           (case u_formatlabels h (a_fcd a) (a_fco a) (a_fca a) (case labels_value l w of None \<Rightarrow> [] | Some xs \<Rightarrow> xs) of
              Inl e \<Rightarrow> (Inl e, w)
            | Inr newlabels \<Rightarrow> (Inr (Labels newlabels), w))
         else (Inr l, w))"

text \<open>
  The \<^verbatim>\<open>try\<close> block of \<^verbatim>\<open>_filemerge\<close>. Besides the outcome (the returned triple or
  the exception) it gives the value the local variable \<^verbatim>\<open>r\<close> holds when the block is
  left, which the \<^verbatim>\<open>finally\<close> clause reads: \<^verbatim>\<open>r = 1\<close> before the block, the result of
  \<^verbatim>\<open>_premerge\<close>, the status the strategy returned, then the status after
  \<^verbatim>\<open>_check\<close>.
\<close>

definition u_filemerge_try ::
  "host \<Rightarrow> bool \<Rightarrow> changectx \<Rightarrow> (host \<Rightarrow> toolargs \<Rightarrow> pyval run) \<Rightarrow> mergetype \<Rightarrow> string option
     \<Rightarrow> string \<Rightarrow> toolargs \<Rightarrow> world \<Rightarrow> (pyval \<times> (error + pyval \<times> pyval \<times> pyval)) \<times> world" where
  "u_filemerge_try h premerge wctx func mergetype onfailure relfd a w =
     (case format_step h a w of
        (Inl e, w1) \<Rightarrow> ((PyInt 1, Inl e), w1)
      | (Inr l, w1) \<Rightarrow>
          (if premerge \<and> mergetype = fullmerge then
             (case u_premerge h (a\<lparr>a_labels := l\<rparr>) w1 of
                (Inl e, w2) \<Rightarrow> ((PyInt 1, Inl e), w2)
              | (Inr r, w2) \<Rightarrow>
                  ((PyInt r, Inr (PyBool (\<not> truthy (PyInt r)), PyInt r, PyBool False)), w2))
           else
             (case func h (a\<lparr>a_labels := l\<rparr>) w1 of
                (Inl e, w2) \<Rightarrow> ((PyInt 1, Inl e), w2)
              | (Inr res, w2) \<Rightarrow>
                  (case unpack3 res of
                     Inl e \<Rightarrow> ((PyInt 1, Inl e), w2)
                   | Inr (needcheck, r0, deleted) \<Rightarrow>
                       (case (if truthy needcheck
                              then u_check h r0 (fst (a_toolconf a)) (a_fcd a) (a_files a) w2
                              else (Inr r0, w2)) of
                          (Inl e, w3) \<Rightarrow> ((r0, Inl e), w3)
                        | (Inr r, w3) \<Rightarrow>
                            (case (if truthy r
                                   then andthen (report_failure wctx onfailure relfd (a_fcd a))
                                          (\<lambda>u. u_onfilemergefailure h) w3
                                   else (Inr (), w3)) of
                               (Inl e, w4) \<Rightarrow> ((r, Inl e), w4)
                             | (Inr u, w4) \<Rightarrow> ((r, Inr (PyBool True, r, deleted)), w4)))))))"

text \<open>
  The \<^verbatim>\<open>try\<close> block with its \<^verbatim>\<open>finally\<close> clause:
  \<^verbatim>\<open>if not r and back is not None: back.remove()\<close>.
\<close>

definition u_filemerge_guarded ::
  "host \<Rightarrow> bool \<Rightarrow> changectx \<Rightarrow> (host \<Rightarrow> toolargs \<Rightarrow> pyval run) \<Rightarrow> mergetype \<Rightarrow> string option
     \<Rightarrow> string \<Rightarrow> toolargs \<Rightarrow> (pyval \<times> pyval \<times> pyval) run" where
  "u_filemerge_guarded h premerge wctx func mergetype onfailure relfd a w =
     (case u_filemerge_try h premerge wctx func mergetype onfailure relfd a w of
        ((r, outcome), w1) \<Rightarrow>
          (case a_files a of
             None \<Rightarrow> (outcome, w1)
           | Some back \<Rightarrow>
               (if \<not> truthy r then
                  (case fctx_remove h back w1 of
                     (Inl e, w2) \<Rightarrow> (Inl e, w2)
                   | (Inr u, w2) \<Rightarrow> (outcome, w2))
                else (outcome, w1))))"

text \<open>The property probe of \<^verbatim>\<open>_filemerge\<close>.\<close>

definition probe_binary :: "host \<Rightarrow> filectx \<Rightarrow> filectx \<Rightarrow> filectx \<Rightarrow> world \<Rightarrow> bool" where
  "probe_binary h fcd fco fca w = (fctx_isbinary h fcd w \<or> fctx_isbinary h fco w \<or> fctx_isbinary h fca w)"

definition probe_symlink :: "host \<Rightarrow> filectx \<Rightarrow> filectx \<Rightarrow> world \<Rightarrow> bool" where
  "probe_symlink h fcd fco w = contains ''l'' (fctx_flags h fcd w @ fctx_flags h fco w)"

definition probe_changedelete :: "filectx \<Rightarrow> filectx \<Rightarrow> bool" where
  "probe_changedelete fcd fco = (fctx_isabsent fcd \<or> fctx_isabsent fco)"

definition bytestr :: "bool \<Rightarrow> string" where
  "bytestr b = (if b then ''True'' else ''False'')"

text \<open>
  \<^verbatim>\<open>"%s" % fctx\<close> in the debug line: what a file context prints is the host's;
  the path and the context's name stand for it.
\<close>

definition fctx_str :: "filectx \<Rightarrow> string" where
  "fctx_str f =
     fctx_path f @ ''@'' @ (case fctx_changectx f of Inl e \<Rightarrow> '''' | Inr c \<Rightarrow> ctxname c)"

text \<open>
  \<^verbatim>\<open>_filemerge\<close> after the tool is picked and normalised (from
  \<^verbatim>\<open>if tool in internals:\<close>, where the strategy is looked up, to the end).
\<close>

definition filemerge_dispatch ::
  "host \<Rightarrow> toolentry registry \<Rightarrow> bool \<Rightarrow> changectx \<Rightarrow> string \<Rightarrow> string option \<Rightarrow> bool \<Rightarrow> bool
     \<Rightarrow> string \<Rightarrow> string \<Rightarrow> filectx \<Rightarrow> filectx \<Rightarrow> filectx \<Rightarrow> labels \<Rightarrow> (pyval \<times> pyval \<times> pyval) run" where
  "filemerge_dispatch h internals premerge wctx tool toolpath binary symlink mynode orig fcd fco fca labels w =
     (let entry = (case internals tool of
                     Some f \<Rightarrow> f
                   | None \<Rightarrow>
                       \<lparr>e_func = (if isinmemory wctx then u_xmergeimm else u_xmerge),
                        e_mergetype = fullmerge,
                        e_onfailure = Some ''merging %s failed!\<newline>'',
                        e_precheck = None\<rparr>);
          relorig = repo_pathto h orig;
          relfo = repo_pathto h (fctx_path fco);
          relfd = repo_pathto h (fctx_path fcd);
          a = \<lparr>a_mynode = mynode, a_orig = orig, a_fcd = fcd, a_fco = fco, a_fca = fca,
               a_toolconf = (tool, toolpath, binary, symlink), a_files = None, a_labels = labels\<rparr>
      in if e_mergetype entry = nomerge then
           (case e_func entry h a w of
              (Inl e, w1) \<Rightarrow> (Inl e, w1)
            | (Inr res, w1) \<Rightarrow>
                (case unpack2 res of
                   Inl e \<Rightarrow> (Inl e, w1)
                 | Inr (r, deleted) \<Rightarrow> (Inr (PyBool True, r, deleted), w1)))
         else
           (let w1 = (if premerge then
                        (if orig \<noteq> fctx_path fco
                         then emit (Status (''merging '' @ relorig @ '' and '' @ relfo @ '' to '' @ relfd
                                            @ ''\<newline>'')) w
                         else emit (Status (''merging '' @ relfd @ ''\<newline>'')) w)
                      else w);
                w2 = emit (Debug (''my '' @ fctx_str fcd @ '' other '' @ fctx_str fco @ '' ancestor ''
                                  @ fctx_str fca @ ''\<newline>'')) w1
            in case (case e_precheck entry of
                       None \<Rightarrow> (Inr True, w2)
                     | Some precheck \<Rightarrow> precheck h a w2) of
                 (Inl e, w3) \<Rightarrow> (Inl e, w3)
               | (Inr False, w3) \<Rightarrow>
                   (case report_failure wctx (e_onfailure entry) relfd fcd w3 of
                      (Inl e, w4) \<Rightarrow> (Inl e, w4)
                    | (Inr u, w4) \<Rightarrow> (Inr (PyBool True, PyInt 1, PyBool False), w4))
               | (Inr True, w3) \<Rightarrow>
                   (case u_makebackup h wctx fcd premerge w3 of
                      (Inl e, w4) \<Rightarrow> (Inl e, w4)
                    | (Inr back, w4) \<Rightarrow>
                        u_filemerge_guarded h premerge wctx (e_func entry) (e_mergetype entry)
                          (e_onfailure entry) relfd (a\<lparr>a_files := back\<rparr>) w4)))"

definition u_filemerge ::
  "host \<Rightarrow> toolentry registry \<Rightarrow> bool \<Rightarrow> changectx \<Rightarrow> string \<Rightarrow> string \<Rightarrow> filectx \<Rightarrow> filectx
     \<Rightarrow> filectx \<Rightarrow> labels \<Rightarrow> (pyval \<times> pyval \<times> pyval) run" where
  "u_filemerge h internals premerge wctx mynode orig fcd fco fca labels w =
     (case fctx_cmp h fco fcd w of
        Inl e \<Rightarrow> (Inl e, w)
      | Inr False \<Rightarrow> (Inr (PyBool True, PyNone, PyBool False), w)
      | Inr True \<Rightarrow>
          (let fd = fctx_path fcd;
               binary = probe_binary h fcd fco fca w;
               symlink = probe_symlink h fcd fco w;
               changedelete = probe_changedelete fcd fco
           in case u_picktool h internals e_mergetype fd binary symlink changedelete w of
                (Inl e, w1) \<Rightarrow> (Inl e, w1)
              | (Inr (tool0, toolpath), w1) \<Rightarrow>
                  (let tool = (if tool0 \<in> dom internals \<and> startswith tool0 ''internal:''
                               then drop (length ''internal'') tool0 else tool0);
                       w2 = emit (Debug (''picked tool '' @ [CHR 0x27] @ tool @ [CHR 0x27] @ '' for '' @ fd @ '' (binary ''
                                         @ bytestr binary @ '' symlink '' @ bytestr symlink
                                         @ '' changedelete '' @ bytestr changedelete @ '')\<newline>'')) w1
                   in filemerge_dispatch h internals premerge wctx tool toolpath binary symlink
                        mynode orig fcd fco fca labels w2)))"

definition premerge ::
  "host \<Rightarrow> toolentry registry \<Rightarrow> changectx \<Rightarrow> string \<Rightarrow> string \<Rightarrow> filectx \<Rightarrow> filectx \<Rightarrow> filectx
     \<Rightarrow> labels \<Rightarrow> (pyval \<times> pyval \<times> pyval) run" where
  "premerge h internals wctx mynode orig fcd fco fca labels =
     u_filemerge h internals True wctx mynode orig fcd fco fca labels"

definition filemerge ::
  "host \<Rightarrow> toolentry registry \<Rightarrow> changectx \<Rightarrow> string \<Rightarrow> string \<Rightarrow> filectx \<Rightarrow> filectx \<Rightarrow> filectx
     \<Rightarrow> labels \<Rightarrow> (pyval \<times> pyval \<times> pyval) run" where
  "filemerge h internals wctx mynode orig fcd fco fca labels =
     u_filemerge h internals False wctx mynode orig fcd fco fca labels"



subsection \<open>A host and inputs for concrete runs\<close>

text \<open>
  A plain host for the concrete runs below: nothing is configured, no executable is
  found, prompts give their default, the external tool exits with 0 and leaves the
  store alone, and the simple-merge primitive reports a clean merge whose text is
  other's. Single functions are replaced where a run needs another behaviour.
\<close>

definition host0 :: host where
  "host0 =
     \<lparr>ui_config = (\<lambda>section name. None),
      ui_config_default = (\<lambda>section name dflt. dflt),
      ui_configbool = (\<lambda>section name. Inr False),
      ui_configbool_default = (\<lambda>section name dflt. Inr dflt),
      ui_configlist = (\<lambda>section name. []),
      ui_configitems = (\<lambda>section. []),
      ui_promptchoice = (\<lambda>msg dflt. Inr dflt),
      ui_system = (\<lambda>cmd cwd env store. (0, store)),
      environ_get = (\<lambda>name. None),
      util_findexe = (\<lambda>p. None),
      util_lookupreg = (\<lambda>k name. None),
      util_expandpath = (\<lambda>p. p),
      util_shellquote = (\<lambda>p. p),
      util_localpath = (\<lambda>p. p),
      util_gui = False,
      util_interpolate = (\<lambda>mapping s. s),
      util_ellipsis = (\<lambda>s n. take n s),
      util_binary = (\<lambda>bytes. contains [CHR 0x00] bytes),
      match_match = (\<lambda>root pat p. False),
      scmutil_origpath = (\<lambda>p. p @ ''.orig''),
      repo_root = ''/repo'',
      repo_wjoin = (\<lambda>p. ''/repo/'' @ p),
      repo_pathto = (\<lambda>p. p),
      repo_wvfs_base = ''/repo'',
      repo_vfs_base = ''/repo/.hg'',
      repo_wvfs_join = (\<lambda>p. ''/repo/'' @ p),
      repo_wwritedata = (\<lambda>p bytes. bytes),
      simplemerge_merge = (\<lambda>opts l b other. (0, strval other)),
      tempfile_mkstemp = (\<lambda>pre suf store. ''/tmp/'' @ pre @ suf),
      os_path_splitext = (\<lambda>p. (p, '''')),
      os_path_basename = (\<lambda>p. p),
      templater_unquotestring = strval,
      templater_render = (\<lambda>template ctx. ctx),
      node_short = (\<lambda>n. take 12 n)\<rparr>"

definition world0 :: world where
  "world0 = \<lparr>fs = Map.empty, trace = [], defaultconflictlabels = [''local'', ''other'']\<rparr>"

definition memctx :: changectx where
  "memctx = Changectx ''wctx'' True"

definition diskctx :: changectx where
  "diskctx = Changectx ''wctx'' False"

definition p2ctx :: changectx where
  "p2ctx = Changectx ''p2'' False"

definition basectx :: changectx where
  "basectx = Changectx ''base'' False"

definition args0 :: toolargs where
  "args0 = \<lparr>a_mynode = ''0123456789abcdef'', a_orig = ''a.txt'',
     a_fcd = Workingfilectx diskctx ''a.txt'',
     a_fco = Filectx p2ctx ''a.txt'' ''O'' ''x'',
     a_fca = Filectx basectx ''a.txt'' ''A'' '''',
     a_toolconf = ('':other'', None, False, False), a_files = None, a_labels = NoLabels\<rparr>"

definition disk1 :: world where
  "disk1 = world0\<lparr>fs := [Disk ''/repo/a.txt'' \<mapsto> \<lparr>fdata = ''L'', fflags = ''''\<rparr>]\<rparr>"

definition memargs :: toolargs where
  "memargs = \<lparr>a_mynode = ''0123456789abcdef'', a_orig = ''a.txt'',
     a_fcd = Overlayworkingfilectx memctx ''a.txt'',
     a_fco = Filectx p2ctx ''a.txt'' ''O'' '''',
     a_fca = Filectx basectx ''a.txt'' ''A'' '''',
     a_toolconf = ('':abort'', None, False, False), a_files = None, a_labels = NoLabels\<rparr>"

definition mem1 :: world where
  "mem1 = world0\<lparr>fs := [Mem ''a.txt'' \<mapsto> \<lparr>fdata = ''A'', fflags = ''''\<rparr>]\<rparr>"

definition conflicthost :: host where
  "conflicthost = host0\<lparr>simplemerge_merge := (\<lambda>opts l b other. (1, ''<<<<<<< local\<newline>L\<newline>=======\<newline>O\<newline>>>>>>>> other\<newline>''))\<rparr>"

definition mergeargs :: toolargs where
  "mergeargs = args0\<lparr>a_toolconf := ('':merge'', None, False, False),
                      a_files := Some (Arbitraryfilectx ''/repo/a.txt.orig''),
                      a_labels := Labels [''local'', ''other'']\<rparr>"

definition disk2 :: world where
  "disk2 = world0\<lparr>fs := [Disk ''/repo/a.txt'' \<mapsto> \<lparr>fdata = ''L'', fflags = ''''\<rparr>,
                          Disk ''/repo/a.txt.orig'' \<mapsto> \<lparr>fdata = ''L'', fflags = ''''\<rparr>]\<rparr>"

definition checkhost :: host where
  "checkhost = host0\<lparr>ui_configbool := (\<lambda>section name. Inr (name = ''kdiff3.checkconflicts''))\<rparr>"

definition prompthost :: host where
  "prompthost = host0\<lparr>ui_configlist := (\<lambda>section name. if name = ''kdiff3.check'' then [''conflicts'', ''prompt''] else []),
                       ui_promptchoice := (\<lambda>msg dflt. Inr 1)\<rparr>"

definition markerdata :: string where
  "markerdata = ''<<<<<<< local\<newline>L\<newline>=======\<newline>O\<newline>>>>>>>> other\<newline>''"

definition disk3 :: world where
  "disk3 = world0\<lparr>fs := [Disk ''/repo/a.txt'' \<mapsto> \<lparr>fdata = markerdata, fflags = ''''\<rparr>]\<rparr>"

text \<open>
  The candidates of the priority pool as the specification words them, for comparison
  with \<open>pool_candidates\<close>: the \<^verbatim>\<open>ui.merge\<close> tool is put first "only if it is either
  known or change_delete is false".
\<close>

definition spec_pool_candidates :: "string option \<Rightarrow> string list \<Rightarrow> bool \<Rightarrow> string list \<Rightarrow> string list" where
  "spec_pool_candidates uimerge names changedelete sorted_names =
     (if strval uimerge \<in> set names \<or> \<not> changedelete then [strval uimerge] else [])
       @ sorted_names @ [''hgmerge'']"

definition uihost :: "string \<Rightarrow> host" where
  "uihost tool = host0\<lparr>ui_config := (\<lambda>section name. if section = ''ui'' \<and> name = ''merge'' then Some tool else None)\<rparr>"

definition poolhost :: host where
  "poolhost = host0
     \<lparr>ui_config := (\<lambda>section name.
          if section = ''ui'' \<and> name = ''merge'' then Some ''kdiff3''
          else if section = ''merge-tools'' \<and> name = ''kdiff3.priority'' then Some ''1''
          else if section = ''merge-tools'' \<and> name = ''meld.priority'' then Some ''5''
          else None),
      ui_configitems := (\<lambda>section.
          if section = ''merge-tools'' then [(''kdiff3.priority'', ''1''), (''meld.priority'', ''5'')] else []),
      util_findexe := (\<lambda>p. if p = ''kdiff3'' \<or> p = ''meld'' then Some (''/usr/bin/'' @ p) else None)\<rparr>"

definition other_entry :: toolentry where
  "other_entry = \<lparr>e_func = u_iother, e_mergetype = nomerge, e_onfailure = None, e_precheck = None\<rparr>"

definition registry1 :: "toolentry registry" where
  "registry1 = ['':other'' \<mapsto> other_entry, ''internal:other'' \<mapsto> other_entry]"








section \<open>Properties\<close>

subsection \<open>Registry population\<close>

lemma loadinternalmerge_other_keys:
  "k \<notin> (\<lambda>n. '':'' @ n) ` fst ` set tbl \<Longrightarrow> k \<notin> (\<lambda>n. ''internal:'' @ n) ` fst ` set tbl \<Longrightarrow>
   fst (loadinternalmerge tbl (ints, doc)) k = ints k"
  by (induction tbl arbitrary: ints doc) (auto simp: Let_def)

lemma loadinternalmerge_written_keys:
  "distinct (map fst tbl) \<Longrightarrow> (name, func) \<in> set tbl \<Longrightarrow>
   fst (loadinternalmerge tbl (ints, doc)) ('':'' @ name) = Some func \<and>
   fst (loadinternalmerge tbl (ints, doc)) (''internal:'' @ name) = Some func"
proof (induction tbl arbitrary: ints doc)
  case Nil
  then show ?case by simp
next
  case (Cons entry tbl)
  obtain n f where entry: "entry = (n, f)" by (cases entry)
  show ?case
  proof (cases "(name, func) \<in> set tbl")
    case True
    with Cons entry show ?thesis by (simp add: Let_def)
  next
    case False
    with Cons.prems entry have same: "n = name" "f = func" by auto
    from Cons.prems entry same have fresh: "name \<notin> fst ` set tbl" by auto
    have k1: "'':'' @ name \<notin> (\<lambda>n. '':'' @ n) ` fst ` set tbl"
      using fresh by auto
    have k2: "'':'' @ name \<notin> (\<lambda>n. ''internal:'' @ n) ` fst ` set tbl"
      by auto
    have k3: "''internal:'' @ name \<notin> (\<lambda>n. '':'' @ n) ` fst ` set tbl"
      by auto
    have k4: "''internal:'' @ name \<notin> (\<lambda>n. ''internal:'' @ n) ` fst ` set tbl"
      using fresh by auto
    show ?thesis
      using loadinternalmerge_other_keys [OF k1 k2] loadinternalmerge_other_keys [OF k3 k4]
      by (simp add: entry same Let_def)
  qed
qed

text \<open>
  C2 (as amended). After \<open>loadinternalmerge\<close> has run over a table (a dictionary: its
  names are distinct), every strategy \<open>name\<close> of the table with entry \<open>func\<close> is found
  under the two keys \<open>":" + name\<close> and \<open>"internal:" + name\<close>, and both give \<open>func\<close>. No
  other key is written: a key that is neither form of a table name, the bare name among
  them, still holds what the registry held before.
\<close>

theorem loadinternalmerge_aliases:
  assumes "distinct (map fst tbl)" and "(name, func) \<in> set tbl"
  shows "fst (loadinternalmerge tbl (ints, doc)) ('':'' @ name) = Some func
       \<and> fst (loadinternalmerge tbl (ints, doc)) (''internal:'' @ name) = Some func
       \<and> (\<forall>k. k \<notin> (\<lambda>n. '':'' @ n) ` fst ` set tbl \<and> k \<notin> (\<lambda>n. ''internal:'' @ n) ` fst ` set tbl
              \<longrightarrow> fst (loadinternalmerge tbl (ints, doc)) k = ints k)"
proof (intro conjI allI impI)
  show "fst (loadinternalmerge tbl (ints, doc)) ('':'' @ name) = Some func"
    using loadinternalmerge_written_keys [OF assms, of ints doc] by (rule conjunct1)
  show "fst (loadinternalmerge tbl (ints, doc)) (''internal:'' @ name) = Some func"
    using loadinternalmerge_written_keys [OF assms, of ints doc] by (rule conjunct2)
next
  fix k
  assume "k \<notin> (\<lambda>n. '':'' @ n) ` fst ` set tbl \<and> k \<notin> (\<lambda>n. ''internal:'' @ n) ` fst ` set tbl"
  then show "fst (loadinternalmerge tbl (ints, doc)) k = ints k"
    by (elim conjE) (rule loadinternalmerge_other_keys)
qed

theorem loadinternalmerge_aliases_witness:
  "fst (loadinternalmerge [(''merge'', fullmerge), (''other'', nomerge)] (Map.empty, Map.empty)) '':other''
     = Some nomerge
   \<and> fst (loadinternalmerge [(''merge'', fullmerge), (''other'', nomerge)] (Map.empty, Map.empty))
       ''internal:other'' = Some nomerge
   \<and> fst (loadinternalmerge [(''merge'', fullmerge), (''other'', nomerge)] (Map.empty, Map.empty)) ''other''
     = None"
proof -
  let ?tbl = "[(''merge'', fullmerge), (''other'', nomerge)]"
  have d: "distinct (map fst ?tbl)" by simp
  have m: "(''other'', nomerge) \<in> set ?tbl" by simp
  note t = loadinternalmerge_aliases [OF d m, of Map.empty Map.empty]
  from t have a: "fst (loadinternalmerge ?tbl (Map.empty, Map.empty)) ('':'' @ ''other'') = Some nomerge"
    by (rule conjunct1)
  from t have b: "fst (loadinternalmerge ?tbl (Map.empty, Map.empty)) (''internal:'' @ ''other'') = Some nomerge"
    by (rule conjunct1 [OF conjunct2])
  from t have c: "\<forall>k. k \<notin> (\<lambda>n. '':'' @ n) ` fst ` set ?tbl \<and> k \<notin> (\<lambda>n. ''internal:'' @ n) ` fst ` set ?tbl
      \<longrightarrow> fst (loadinternalmerge ?tbl (Map.empty, Map.empty)) k = Map.empty k"
    by (rule conjunct2 [OF conjunct2])
  have k: "''other'' \<notin> (\<lambda>n. '':'' @ n) ` fst ` set ?tbl
      \<and> ''other'' \<notin> (\<lambda>n. ''internal:'' @ n) ` fst ` set ?tbl"
    by simp
  from c have "''other'' \<notin> (\<lambda>n. '':'' @ n) ` fst ` set ?tbl
      \<and> ''other'' \<notin> (\<lambda>n. ''internal:'' @ n) ` fst ` set ?tbl
      \<longrightarrow> fst (loadinternalmerge ?tbl (Map.empty, Map.empty)) ''other'' = Map.empty ''other''"
    by (rule spec)
  with k have "fst (loadinternalmerge ?tbl (Map.empty, Map.empty)) ''other'' = Map.empty ''other''"
    by (rule rev_mp)
  with a b show ?thesis by simp
qed

text \<open>
  C2 (as stated) fails: a lookup under the bare name does not resolve to the entry found
  under \<open>":" + name\<close>. Populating the empty registry from a table that holds the strategy
  \<open>merge\<close> leaves no key \<open>merge\<close>.
\<close>

theorem loadinternalmerge_bare_name_counterexample:
  "fst (loadinternalmerge [(''merge'', fullmerge)] (Map.empty, Map.empty)) ''merge'' = None
   \<and> fst (loadinternalmerge [(''merge'', fullmerge)] (Map.empty, Map.empty)) '':merge'' = Some fullmerge
   \<and> fst (loadinternalmerge [(''merge'', fullmerge)] (Map.empty, Map.empty)) ''merge''
       \<noteq> fst (loadinternalmerge [(''merge'', fullmerge)] (Map.empty, Map.empty)) '':merge''"
  by (simp add: Let_def)

subsection \<open>Absent file versions and the property probe\<close>

lemma contains_single: "contains [c] xs \<longleftrightarrow> c \<in> set xs"
  by (induction xs) (auto simp: startswith_def)

lemma absent_isbinary: "fctx_isabsent f \<Longrightarrow> fctx_isbinary h f w = False"
  by (cases f) simp_all

lemma absent_flags: "fctx_isabsent f \<Longrightarrow> fctx_flags h f w = ''''"
  by (cases f) simp_all

text \<open>
  C10. An absent file version has empty flags, is not binary, and has neither size nor
  data. So the probe of \<open>u_filemerge\<close> finds a merge binary only if one of local,
  other and ancestor is present and binary, and finds it a symlink only if one of
  local and other is present and carries the flag \<open>l\<close>.
\<close>

theorem absent_never_classifies:
  "fctx_flags h (Absentfilectx c p) w = ''''
   \<and> fctx_isbinary h (Absentfilectx c p) w = False
   \<and> fctx_size h (Absentfilectx c p) w = Inr None
   \<and> fctx_data h (Absentfilectx c p) w = Inr None
   \<and> (probe_binary h fcd fco fca w \<longrightarrow>
        (\<exists>f \<in> {fcd, fco, fca}. \<not> fctx_isabsent f \<and> fctx_isbinary h f w))
   \<and> (probe_symlink h fcd fco w \<longrightarrow>
        (\<exists>f \<in> {fcd, fco}. \<not> fctx_isabsent f \<and> contains ''l'' (fctx_flags h f w)))"
proof (intro conjI impI)
  assume "probe_binary h fcd fco fca w"
  then show "\<exists>f \<in> {fcd, fco, fca}. \<not> fctx_isabsent f \<and> fctx_isbinary h f w"
    unfolding probe_binary_def using absent_isbinary by blast
next
  assume "probe_symlink h fcd fco w"
  then have "CHR ''l'' \<in> set (fctx_flags h fcd w) \<or> CHR ''l'' \<in> set (fctx_flags h fco w)"
    unfolding probe_symlink_def by (simp add: contains_single)
  then show "\<exists>f \<in> {fcd, fco}. \<not> fctx_isabsent f \<and> contains ''l'' (fctx_flags h f w)"
    using absent_flags [of fcd h w] absent_flags [of fco h w] by (auto simp: contains_single)
qed simp_all

theorem absent_never_classifies_witness:
  "probe_symlink host0 (Filectx p2ctx ''a'' ''x'' ''l'') (Absentfilectx diskctx ''a'') world0
   \<and> (\<exists>f \<in> {Filectx p2ctx ''a'' ''x'' ''l'', Absentfilectx diskctx ''a''}.
         \<not> fctx_isabsent f \<and> contains ''l'' (fctx_flags host0 f world0))
   \<and> \<not> probe_binary host0 (Absentfilectx diskctx ''a'') (Absentfilectx p2ctx ''a'') (Absentfilectx basectx ''a'') world0"
proof -
  have s: "probe_symlink host0 (Filectx p2ctx ''a'' ''x'' ''l'') (Absentfilectx diskctx ''a'') world0"
    by (simp add: probe_symlink_def startswith_def)
  have b: "\<not> probe_binary host0 (Absentfilectx diskctx ''a'') (Absentfilectx p2ctx ''a'') (Absentfilectx basectx ''a'') world0"
    by (simp add: probe_binary_def)
  from absent_never_classifies [of host0 diskctx "''a''" world0 "Filectx p2ctx ''a'' ''x'' ''l''"
      "Absentfilectx diskctx ''a''" "Absentfilectx basectx ''a''"] s b
  show ?thesis by blast
qed

subsection \<open>The strategy other\<close>

text \<open>
  C7. The strategy \<open>other\<close>. The destination is the working file at local's path: the
  place \<open>l\<close> of local itself when local is a file of the working context (on disk or in
  memory), and, when local is absent, the place of the file that local's context holds
  at local's path. When other is present (and its data can be read), the destination is
  written with exactly other's bytes and other's flags and the result is \<open>(0, False)\<close>;
  when other is absent, the destination is removed and the result is \<open>(0, True)\<close>.
\<close>

theorem iother_adopts_other:
  assumes dest: "a_fcd a = Workingfilectx c p \<and> l = Disk (repo_wjoin h p)
               \<or> a_fcd a = Overlayworkingfilectx c p \<and> l = Mem p
               \<or> a_fcd a = Absentfilectx c p \<and> l = (if isinmemory c then Mem p else Disk (repo_wjoin h p))"
  shows "(\<not> fctx_isabsent (a_fco a) \<and> fctx_data h (a_fco a) w = Inr (Some d)
           \<longrightarrow> u_iother h a w =
                (Inr (PyTuple [PyInt 0, PyBool False]),
                 w\<lparr>fs := (fs w)(l \<mapsto> \<lparr>fdata = d, fflags = fctx_flags h (a_fco a) w\<rparr>)\<rparr>))
       \<and> (fctx_isabsent (a_fco a)
           \<longrightarrow> u_iother h a w =
                (Inr (PyTuple [PyInt 0, PyBool True]), w\<lparr>fs := (fs w)(l := None)\<rparr>))"
proof -
  from dest have place: "floc h (u_underlyingfctxifabsent (a_fcd a)) = Some l"
    by (auto simp: u_underlyingfctxifabsent_def wctx_getitem_def)
  then show ?thesis
    by (simp add: u_iother_def fctx_write_def fctx_remove_def)
qed

theorem iother_adopts_other_witness:
  "u_iother host0 args0 disk1 =
     (Inr (PyTuple [PyInt 0, PyBool False]),
      disk1\<lparr>fs := (fs disk1)(Disk ''/repo/a.txt'' \<mapsto> \<lparr>fdata = ''O'', fflags = ''x''\<rparr>)\<rparr>)
   \<and> u_iother host0 (args0\<lparr>a_fcd := Absentfilectx diskctx ''a.txt''\<rparr>) world0 =
     (Inr (PyTuple [PyInt 0, PyBool False]),
      world0\<lparr>fs := (fs world0)(Disk ''/repo/a.txt'' \<mapsto> \<lparr>fdata = ''O'', fflags = ''x''\<rparr>)\<rparr>)
   \<and> u_iother host0 (args0\<lparr>a_fcd := Absentfilectx memctx ''a.txt''\<rparr>) world0 =
     (Inr (PyTuple [PyInt 0, PyBool False]),
      world0\<lparr>fs := (fs world0)(Mem ''a.txt'' \<mapsto> \<lparr>fdata = ''O'', fflags = ''x''\<rparr>)\<rparr>)
   \<and> u_iother host0 (args0\<lparr>a_fco := Absentfilectx p2ctx ''a.txt''\<rparr>) disk1 =
     (Inr (PyTuple [PyInt 0, PyBool True]), disk1\<lparr>fs := (fs disk1)(Disk ''/repo/a.txt'' := None)\<rparr>)"
proof -
  have d1: "a_fcd args0 = Workingfilectx diskctx ''a.txt'' \<and> Disk ''/repo/a.txt'' = Disk (repo_wjoin host0 ''a.txt'')
      \<or> a_fcd args0 = Overlayworkingfilectx diskctx ''a.txt'' \<and> Disk ''/repo/a.txt'' = Mem ''a.txt''
      \<or> a_fcd args0 = Absentfilectx diskctx ''a.txt''
          \<and> Disk ''/repo/a.txt'' = (if isinmemory diskctx then Mem ''a.txt'' else Disk (repo_wjoin host0 ''a.txt''))"
    by (simp add: args0_def host0_def)
  have d2: "a_fcd (args0\<lparr>a_fcd := Absentfilectx diskctx ''a.txt''\<rparr>) = Workingfilectx diskctx ''a.txt''
          \<and> Disk ''/repo/a.txt'' = Disk (repo_wjoin host0 ''a.txt'')
      \<or> a_fcd (args0\<lparr>a_fcd := Absentfilectx diskctx ''a.txt''\<rparr>) = Overlayworkingfilectx diskctx ''a.txt''
          \<and> Disk ''/repo/a.txt'' = Mem ''a.txt''
      \<or> a_fcd (args0\<lparr>a_fcd := Absentfilectx diskctx ''a.txt''\<rparr>) = Absentfilectx diskctx ''a.txt''
          \<and> Disk ''/repo/a.txt'' = (if isinmemory diskctx then Mem ''a.txt'' else Disk (repo_wjoin host0 ''a.txt''))"
    by (simp add: host0_def diskctx_def)
  have d3: "a_fcd (args0\<lparr>a_fcd := Absentfilectx memctx ''a.txt''\<rparr>) = Workingfilectx memctx ''a.txt''
          \<and> Mem ''a.txt'' = Disk (repo_wjoin host0 ''a.txt'')
      \<or> a_fcd (args0\<lparr>a_fcd := Absentfilectx memctx ''a.txt''\<rparr>) = Overlayworkingfilectx memctx ''a.txt''
          \<and> Mem ''a.txt'' = Mem ''a.txt''
      \<or> a_fcd (args0\<lparr>a_fcd := Absentfilectx memctx ''a.txt''\<rparr>) = Absentfilectx memctx ''a.txt''
          \<and> Mem ''a.txt'' = (if isinmemory memctx then Mem ''a.txt'' else Disk (repo_wjoin host0 ''a.txt''))"
    by (simp add: memctx_def)
  have d4: "a_fcd (args0\<lparr>a_fco := Absentfilectx p2ctx ''a.txt''\<rparr>) = Workingfilectx diskctx ''a.txt''
          \<and> Disk ''/repo/a.txt'' = Disk (repo_wjoin host0 ''a.txt'')
      \<or> a_fcd (args0\<lparr>a_fco := Absentfilectx p2ctx ''a.txt''\<rparr>) = Overlayworkingfilectx diskctx ''a.txt''
          \<and> Disk ''/repo/a.txt'' = Mem ''a.txt''
      \<or> a_fcd (args0\<lparr>a_fco := Absentfilectx p2ctx ''a.txt''\<rparr>) = Absentfilectx diskctx ''a.txt''
          \<and> Disk ''/repo/a.txt'' = (if isinmemory diskctx then Mem ''a.txt'' else Disk (repo_wjoin host0 ''a.txt''))"
    by (simp add: args0_def host0_def)
  have r1: "u_iother host0 args0 disk1 =
     (Inr (PyTuple [PyInt 0, PyBool False]),
      disk1\<lparr>fs := (fs disk1)(Disk ''/repo/a.txt'' \<mapsto> \<lparr>fdata = ''O'', fflags = ''x''\<rparr>)\<rparr>)"
    using iother_adopts_other [OF d1, of disk1 "''O''"] by (simp add: args0_def)
  have r2: "u_iother host0 (args0\<lparr>a_fcd := Absentfilectx diskctx ''a.txt''\<rparr>) world0 =
     (Inr (PyTuple [PyInt 0, PyBool False]),
      world0\<lparr>fs := (fs world0)(Disk ''/repo/a.txt'' \<mapsto> \<lparr>fdata = ''O'', fflags = ''x''\<rparr>)\<rparr>)"
    using iother_adopts_other [OF d2, of world0 "''O''"] by (simp add: args0_def)
  have r3: "u_iother host0 (args0\<lparr>a_fcd := Absentfilectx memctx ''a.txt''\<rparr>) world0 =
     (Inr (PyTuple [PyInt 0, PyBool False]),
      world0\<lparr>fs := (fs world0)(Mem ''a.txt'' \<mapsto> \<lparr>fdata = ''O'', fflags = ''x''\<rparr>)\<rparr>)"
    using iother_adopts_other [OF d3, of world0 "''O''"] by (simp add: args0_def)
  have r4: "u_iother host0 (args0\<lparr>a_fco := Absentfilectx p2ctx ''a.txt''\<rparr>) disk1 =
     (Inr (PyTuple [PyInt 0, PyBool True]), disk1\<lparr>fs := (fs disk1)(Disk ''/repo/a.txt'' := None)\<rparr>)"
    using iother_adopts_other [OF d4, of disk1] by simp
  from r1 r2 r3 r4 show ?thesis by simp
qed

subsection \<open>The strategy abort\<close>

text \<open>
  \<open>u_imerge\<close> returns the triple \<open>(True, r, False)\<close>, and a non-empty tuple is true
  whatever its components: in an in-memory context \<open>u_iabort\<close> never returns.
\<close>

lemma imerge_result_truthy: "u_imerge h a w = (Inr res, w1) \<Longrightarrow> truthy res"
  by (auto simp: u_imerge_def u_merge_def split: prod.splits sum.splits)

lemma iabort_never_returns:
  "fctx_changectx (a_fcd a) = Inr c \<Longrightarrow> isinmemory c \<Longrightarrow> u_iabort h a w \<noteq> (Inr res, w1)"
  using imerge_result_truthy
  by (auto simp: u_iabort_def split: prod.splits sum.splits)

text \<open>
  C1 fails on the code. In an in-memory working context, with a simple merge that is
  clean (status 0), \<open>u_imerge\<close> returns \<open>(True, 0, False)\<close> and \<open>u_iabort\<close> raises
  \<open>AbortMergeToolError\<close> all the same: \<^verbatim>\<open>if res:\<close> tests the tuple, not its status.
\<close>

theorem iabort_clean_merge_raises:
  "fctx_changectx (a_fcd memargs) = Inr memctx \<and> isinmemory memctx
   \<and> fst (u_imerge host0 memargs mem1) = Inr (PyTuple [PyBool True, PyInt 0, PyBool False])
   \<and> fst (u_iabort host0 memargs mem1)
       = Inl (AbortMergeToolError ''hit merge conflicts, and --tool :abort passed'')"
  by (simp add: u_iabort_def u_imerge_def u_merge_def simplemerge_def memargs_def mem1_def world0_def
      memctx_def host0_def fctx_write_def emit_def labels_value_def strval_def)

subsection \<open>The external driver on change/delete conflicts\<close>

text \<open>
  C9. When local or other is absent, \<open>u_xmerge\<close> returns \<open>(False, 1, None)\<close>, whose
  last component is \<^verbatim>\<open>None\<close> and no boolean, and all it does is to emit one warning:
  the store is unchanged (no temporary file is made), and the trace gains neither a
  command run by \<^verbatim>\<open>ui.system\<close> nor a \<^verbatim>\<open>mkstemp\<close>.
\<close>

theorem xmerge_refuses_changedelete:
  assumes "fctx_isabsent (a_fcd a) \<or> fctx_isabsent (a_fco a)"
  shows "u_xmerge h a w =
           (Inr (PyTuple [PyBool False, PyInt 1, PyNone]),
            w\<lparr>trace := trace w @ [Warn (''warning: '' @ fst (a_toolconf a)
                 @ '' cannot merge change/delete conflict for '' @ fctx_path (a_fcd a) @ ''\<newline>'')]\<rparr>)
       \<and> fs (snd (u_xmerge h a w)) = fs w
       \<and> (\<forall>cmd. System cmd \<notin> set (trace (snd (u_xmerge h a w))) - set (trace w))
       \<and> (\<forall>name. Mkstemp name \<notin> set (trace (snd (u_xmerge h a w))) - set (trace w))"
  using assms by (auto simp: u_xmerge_def emit_def split: prod.splits)

theorem xmerge_refuses_changedelete_witness:
  "u_xmerge host0 (args0\<lparr>a_fco := Absentfilectx p2ctx ''a.txt'', a_toolconf := (''kdiff3'', Some ''/usr/bin/kdiff3'', False, False)\<rparr>) disk1 =
     (Inr (PyTuple [PyBool False, PyInt 1, PyNone]),
      disk1\<lparr>trace := [Warn ''warning: kdiff3 cannot merge change/delete conflict for a.txt\<newline>'']\<rparr>)"
proof -
  have "fctx_isabsent (a_fcd (args0\<lparr>a_fco := Absentfilectx p2ctx ''a.txt'', a_toolconf := (''kdiff3'', Some ''/usr/bin/kdiff3'', False, False)\<rparr>))
      \<or> fctx_isabsent (a_fco (args0\<lparr>a_fco := Absentfilectx p2ctx ''a.txt'', a_toolconf := (''kdiff3'', Some ''/usr/bin/kdiff3'', False, False)\<rparr>))"
    by simp
  from xmerge_refuses_changedelete [OF this, of host0 disk1]
  show ?thesis by (simp add: args0_def disk1_def world0_def)
qed

subsection \<open>The identity shortcut\<close>

text \<open>
  C5. When \<^verbatim>\<open>fco.cmp(fcd)\<close> is false, \<open>u_filemerge\<close> (and so \<open>premerge\<close> and
  \<open>filemerge\<close>) returns \<open>(True, None, False)\<close> at once and leaves the world as it
  was: no tool is picked (nothing is written to the trace), no backup is made, and no
  file of the store changes.
\<close>

theorem filemerge_identical_shortcut:
  assumes "fctx_cmp h fco fcd w = Inr False"
  shows "u_filemerge h internals pre wctx mynode orig fcd fco fca labels w
           = (Inr (PyBool True, PyNone, PyBool False), w)
       \<and> premerge h internals wctx mynode orig fcd fco fca labels w
           = (Inr (PyBool True, PyNone, PyBool False), w)
       \<and> filemerge h internals wctx mynode orig fcd fco fca labels w
           = (Inr (PyBool True, PyNone, PyBool False), w)"
  using assms by (simp add: u_filemerge_def premerge_def filemerge_def)

theorem filemerge_identical_shortcut_witness:
  "fctx_cmp host0 (Filectx p2ctx ''a.txt'' ''L'' '''') (Workingfilectx diskctx ''a.txt'') disk1 = Inr False
   \<and> filemerge host0 Map.empty diskctx ''0123'' ''a.txt'' (Workingfilectx diskctx ''a.txt'')
        (Filectx p2ctx ''a.txt'' ''L'' '''') (Filectx basectx ''a.txt'' ''A'' '''') NoLabels disk1
      = (Inr (PyBool True, PyNone, PyBool False), disk1)"
proof -
  have c: "fctx_cmp host0 (Filectx p2ctx ''a.txt'' ''L'' '''') (Workingfilectx diskctx ''a.txt'') disk1 = Inr False"
    by (simp add: disk1_def world0_def host0_def)
  from filemerge_identical_shortcut [OF c] c show ?thesis by simp
qed

subsection \<open>The premerge driver\<close>

text \<open>
  C6. \<open>u_premerge\<close> returns 1 and leaves the world as it was (the simple merge is not
  invoked: the trace and the store are unchanged) when the file is a symlink or local or
  other is absent. Otherwise, when the policy \<open>p\<close> is true and the simple merge is
  invoked: if it is clean (\<open>r = 0\<close>) the driver returns 0; if it leaves conflicts and
  \<open>p\<close> is neither \<open>keep\<close> nor \<open>keep-merge3\<close>, the destination at \<open>place\<close> is written with
  the data \<open>d\<close> of the backup \<open>b\<close> and its own flags, and the driver returns 1.
\<close>

theorem premerge_driver:
  assumes tc: "a_toolconf a = (tool, toolpath, binary, symlink)"
  shows "(symlink \<or> fctx_isabsent (a_fcd a) \<or> fctx_isabsent (a_fco a) \<longrightarrow> u_premerge h a w = (Inr 1, w))
       \<and> (\<not> symlink \<and> \<not> fctx_isabsent (a_fcd a) \<and> \<not> fctx_isabsent (a_fco a)
            \<and> premerge_policy h tool binary = Inr p \<and> truthy p
            \<and> (if p = PyStr ''keep-merge3''
                then labels_with_base (labels_or_default (a_labels a) w) w
                else (Inr (a_labels a), w)) = (Inr l, w1)
            \<and> simplemerge h (a_fcd a) (a_fca a) (a_fco a)
                 \<lparr>sm_quiet = True, sm_label = labels_value l w1, sm_mode = None, sm_localorother = None\<rparr> w1
                = (Inr r, w2)
          \<longrightarrow> (r = 0 \<longrightarrow> u_premerge h a w = (Inr 0, emit (Debug '' premerge successful\<newline>'') w2))
            \<and> (r \<noteq> 0 \<and> p \<notin> PyStr ` set validkeep \<and> a_files a = Some b
                 \<and> fctx_data h b w2 = Inr (Some d) \<and> floc h (a_fcd a) = Some place
               \<longrightarrow> u_premerge h a w =
                     (Inr 1, w2\<lparr>fs := (fs w2)(place \<mapsto> \<lparr>fdata = d, fflags = fctx_flags h (a_fcd a) w2\<rparr>)\<rparr>)))"
proof (intro conjI impI)
  assume "symlink \<or> fctx_isabsent (a_fcd a) \<or> fctx_isabsent (a_fco a)"
  with tc show "u_premerge h a w = (Inr 1, w)"
    by (simp add: u_premerge_def)
next
  assume pre: "\<not> symlink \<and> \<not> fctx_isabsent (a_fcd a) \<and> \<not> fctx_isabsent (a_fco a)
            \<and> premerge_policy h tool binary = Inr p \<and> truthy p
            \<and> (if p = PyStr ''keep-merge3''
                then labels_with_base (labels_or_default (a_labels a) w) w
                else (Inr (a_labels a), w)) = (Inr l, w1)
            \<and> simplemerge h (a_fcd a) (a_fca a) (a_fco a)
                 \<lparr>sm_quiet = True, sm_label = labels_value l w1, sm_mode = None, sm_localorother = None\<rparr> w1
                = (Inr r, w2)"
  assume "r = 0"
  with tc pre show "u_premerge h a w = (Inr 0, emit (Debug '' premerge successful\<newline>'') w2)"
    by (simp add: u_premerge_def)
next
  assume pre: "\<not> symlink \<and> \<not> fctx_isabsent (a_fcd a) \<and> \<not> fctx_isabsent (a_fco a)
            \<and> premerge_policy h tool binary = Inr p \<and> truthy p
            \<and> (if p = PyStr ''keep-merge3''
                then labels_with_base (labels_or_default (a_labels a) w) w
                else (Inr (a_labels a), w)) = (Inr l, w1)
            \<and> simplemerge h (a_fcd a) (a_fca a) (a_fco a)
                 \<lparr>sm_quiet = True, sm_label = labels_value l w1, sm_mode = None, sm_localorother = None\<rparr> w1
                = (Inr r, w2)"
  assume conf: "r \<noteq> 0 \<and> p \<notin> PyStr ` set validkeep \<and> a_files a = Some b
                 \<and> fctx_data h b w2 = Inr (Some d) \<and> floc h (a_fcd a) = Some place"
  with tc pre show "u_premerge h a w =
      (Inr 1, w2\<lparr>fs := (fs w2)(place \<mapsto> \<lparr>fdata = d, fflags = fctx_flags h (a_fcd a) w2\<rparr>)\<rparr>)"
    by (simp add: u_premerge_def u_restorebackup_def fctx_write_def)
qed

lemmas run_defs = simplemerge_def fctx_write_def emit_def labels_value_def strval_def
  mergeargs_def args0_def disk2_def world0_def host0_def conflicthost_def premerge_policy_def
  u_toolbool_default_def

theorem premerge_driver_witness:
  "u_premerge host0 (mergeargs\<lparr>a_fco := Absentfilectx p2ctx ''a.txt''\<rparr>) disk2 = (Inr 1, disk2)
   \<and> fst (u_premerge host0 mergeargs disk2) = Inr 0
   \<and> fst (u_premerge conflicthost mergeargs disk2) = Inr 1
   \<and> fs (snd (u_premerge conflicthost mergeargs disk2)) (Disk ''/repo/a.txt'')
       = Some \<lparr>fdata = ''L'', fflags = ''''\<rparr>"
proof -
  let ?opts = "\<lparr>sm_quiet = True, sm_label = labels_value (Labels [''local'', ''other'']) disk2,
                sm_mode = None, sm_localorother = None\<rparr>"
  have tc: "a_toolconf mergeargs = ('':merge'', None, False, False)"
    by (simp add: mergeargs_def)
  have tc1: "a_toolconf (mergeargs\<lparr>a_fco := Absentfilectx p2ctx ''a.txt''\<rparr>) = ('':merge'', None, False, False)"
    by (simp add: mergeargs_def)
  have skip: "u_premerge host0 (mergeargs\<lparr>a_fco := Absentfilectx p2ctx ''a.txt''\<rparr>) disk2 = (Inr 1, disk2)"
    using premerge_driver [OF tc1, of host0 disk2] by simp
  define W0 where "W0 = snd (simplemerge host0 (a_fcd mergeargs) (a_fca mergeargs) (a_fco mergeargs) ?opts disk2)"
  define W1 where "W1 = snd (simplemerge conflicthost (a_fcd mergeargs) (a_fca mergeargs) (a_fco mergeargs) ?opts disk2)"
  have sm0: "simplemerge host0 (a_fcd mergeargs) (a_fca mergeargs) (a_fco mergeargs) ?opts disk2 = (Inr 0, W0)"
    unfolding W0_def by (simp add: run_defs)
  have sm1: "simplemerge conflicthost (a_fcd mergeargs) (a_fca mergeargs) (a_fco mergeargs) ?opts disk2 = (Inr 1, W1)"
    unfolding W1_def by (simp add: run_defs)
  have pre0: "\<not> False \<and> \<not> fctx_isabsent (a_fcd mergeargs) \<and> \<not> fctx_isabsent (a_fco mergeargs)
      \<and> premerge_policy host0 '':merge'' False = Inr (PyBool True) \<and> truthy (PyBool True)
      \<and> (if PyBool True = PyStr ''keep-merge3''
          then labels_with_base (labels_or_default (a_labels mergeargs) disk2) disk2
          else (Inr (a_labels mergeargs), disk2)) = (Inr (Labels [''local'', ''other'']), disk2)
      \<and> simplemerge host0 (a_fcd mergeargs) (a_fca mergeargs) (a_fco mergeargs) ?opts disk2 = (Inr 0, W0)"
    using sm0 by (simp add: run_defs)
  have pre1: "\<not> False \<and> \<not> fctx_isabsent (a_fcd mergeargs) \<and> \<not> fctx_isabsent (a_fco mergeargs)
      \<and> premerge_policy conflicthost '':merge'' False = Inr (PyBool True) \<and> truthy (PyBool True)
      \<and> (if PyBool True = PyStr ''keep-merge3''
          then labels_with_base (labels_or_default (a_labels mergeargs) disk2) disk2
          else (Inr (a_labels mergeargs), disk2)) = (Inr (Labels [''local'', ''other'']), disk2)
      \<and> simplemerge conflicthost (a_fcd mergeargs) (a_fca mergeargs) (a_fco mergeargs) ?opts disk2 = (Inr 1, W1)"
    using sm1 by (simp add: run_defs)
  have clean: "u_premerge host0 mergeargs disk2 = (Inr 0, emit (Debug '' premerge successful\<newline>'') W0)"
    using premerge_driver [OF tc, of host0 disk2 "PyBool True" "Labels [''local'', ''other'']" disk2 0 W0] pre0
    by blast
  have bk: "(1::int) \<noteq> 0 \<and> PyBool True \<notin> PyStr ` set validkeep
      \<and> a_files mergeargs = Some (Arbitraryfilectx ''/repo/a.txt.orig'')
      \<and> fctx_data conflicthost (Arbitraryfilectx ''/repo/a.txt.orig'') W1 = Inr (Some ''L'')
      \<and> floc conflicthost (a_fcd mergeargs) = Some (Disk ''/repo/a.txt'')"
    unfolding W1_def by (auto simp: run_defs)
  have conflict: "u_premerge conflicthost mergeargs disk2 =
      (Inr 1, W1\<lparr>fs := (fs W1)(Disk ''/repo/a.txt'' \<mapsto>
         \<lparr>fdata = ''L'', fflags = fctx_flags conflicthost (a_fcd mergeargs) W1\<rparr>)\<rparr>)"
    using premerge_driver [OF tc, of conflicthost disk2 "PyBool True" "Labels [''local'', ''other'']" disk2 1 W1
        "Arbitraryfilectx ''/repo/a.txt.orig''" "''L''" "Disk ''/repo/a.txt''"] pre1 bk
    by blast
  have fl: "fctx_flags conflicthost (a_fcd mergeargs) W1 = ''''"
    unfolding W1_def by (simp add: run_defs)
  from skip clean conflict fl show ?thesis by simp
qed

subsection \<open>The conflict scan of the post-check\<close>

lemma check_prompt_keeps_one:
  "check_prompt h (PyInt 1) tool fd w = (Inr (c, r2), w1) \<Longrightarrow> r2 = PyInt 1"
  by (auto simp: check_prompt_def Let_def split: if_splits sum.splits)

lemma check_changed_truthy:
  "truthy r \<Longrightarrow> check_changed h c r tool fcd bk w = (Inr r, w)"
  by (simp add: check_changed_def)

lemma check_fixeol_result:
  "andthen (check_fixeol h tool fcd bk) (\<lambda>u. pure_result (Inr r3)) w = (Inr r', w') \<Longrightarrow> r' = r3"
  by (auto simp: andthen_def pure_result_def split: prod.splits sum.splits)

lemma u_check_steps:
  assumes "u_check h r tool fcd bk w = (Inr r', w')"
  shows "\<exists>r1 w1 c r2 w2 w3.
           check_conflicts h r tool fcd w = (Inr r1, w1)
         \<and> check_prompt h r1 tool (fctx_path fcd) w1 = (Inr (c, r2), w2)
         \<and> check_changed h c r2 tool fcd bk w2 = (Inr r', w3)"
  using assms
  unfolding u_check_def andthen_def pure_result_def
  by (auto split: prod.splits sum.splits)

lemma markerdata_search: "conflict_search markerdata"
  by (simp add: conflict_search_def markerdata_def marker_line_def startswith_def)

text \<open>
  C8 (as amended). Let the tool have \<open>checkconflicts\<close> set or \<open>conflicts\<close> in its
  \<open>check\<close> list, and let the destination hold \<open>bytes\<close>. The scan finds a conflict iff
  a line of \<open>bytes\<close> starts with \<open><<<<<<<\<close> and a blank, is \<open>=======\<close>, or starts with
  \<open>>>>>>>>\<close> and a blank. When the incoming status is clean (0) and the scan finds a
  conflict, every post-check that returns gives status 1. When the scan finds none, it
  leaves the status as it was, and so does the whole post-check when neither the prompt
  check nor the changed check is configured. When the incoming status is not clean the
  scan does not run and leaves the status as it was.
\<close>

theorem check_conflict_scan:
  assumes cc: "u_toolbool h tool ''checkconflicts'' = Inr b"
      and on: "b \<or> ''conflicts'' \<in> set (u_toollist h tool ''check'')"
      and bytes: "fctx_data h fcd w = Inr (Some bytes)"
  shows "conflict_search bytes =
           (\<exists>l \<in> set (split_nl bytes). startswith l ''<<<<<<< '' \<or> l = ''======='' \<or> startswith l ''>>>>>>> '')
       \<and> (\<not> truthy r \<and> conflict_search bytes \<and> u_check h r tool fcd bk w = (Inr r', w')
            \<longrightarrow> r' = PyInt 1)
       \<and> (\<not> conflict_search bytes \<longrightarrow> check_conflicts h r tool fcd w = (Inr r, w))
       \<and> (\<not> conflict_search bytes \<and> ''prompt'' \<notin> set (u_toollist h tool ''check'')
            \<and> u_toolbool h tool ''checkchanged'' = Inr False
            \<and> ''changed'' \<notin> set (u_toollist h tool ''check'')
            \<and> u_check h r tool fcd bk w = (Inr r', w')
            \<longrightarrow> r' = r)
       \<and> (truthy r \<longrightarrow> check_conflicts h r tool fcd w = (Inr r, w))"
proof (intro conjI impI)
  show "conflict_search bytes =
      (\<exists>l \<in> set (split_nl bytes). startswith l ''<<<<<<< '' \<or> l = ''======='' \<or> startswith l ''>>>>>>> '')"
    by (simp add: conflict_search_def marker_line_def list_ex_iff)
next
  assume a: "\<not> truthy r \<and> conflict_search bytes \<and> u_check h r tool fcd bk w = (Inr r', w')"
  from a u_check_steps obtain r1 w1 c r2 w2 w3 where
    s1: "check_conflicts h r tool fcd w = (Inr r1, w1)" and
    s2: "check_prompt h r1 tool (fctx_path fcd) w1 = (Inr (c, r2), w2)" and
    s3: "check_changed h c r2 tool fcd bk w2 = (Inr r', w3)"
    by blast
  from s1 a cc on bytes have "r1 = PyInt 1"
    by (auto simp: check_conflicts_def split: if_splits)
  with s2 have "r2 = PyInt 1" using check_prompt_keeps_one by blast
  with s3 show "r' = PyInt 1" by (simp add: check_changed_truthy)
next
  assume "\<not> conflict_search bytes"
  with cc bytes show "check_conflicts h r tool fcd w = (Inr r, w)"
    by (simp add: check_conflicts_def)
next
  assume a: "\<not> conflict_search bytes \<and> ''prompt'' \<notin> set (u_toollist h tool ''check'')
            \<and> u_toolbool h tool ''checkchanged'' = Inr False
            \<and> ''changed'' \<notin> set (u_toollist h tool ''check'')
            \<and> u_check h r tool fcd bk w = (Inr r', w')"
  from a u_check_steps obtain r1 w1 c r2 w2 w3 where
    s1: "check_conflicts h r tool fcd w = (Inr r1, w1)" and
    s2: "check_prompt h r1 tool (fctx_path fcd) w1 = (Inr (c, r2), w2)" and
    s3: "check_changed h c r2 tool fcd bk w2 = (Inr r', w3)"
    by blast
  from s1 a cc bytes have "r1 = r" by (auto simp: check_conflicts_def split: if_splits)
  with s2 a have "r2 = r" by (simp add: check_prompt_def)
  with s3 a show "r' = r" by (auto simp: check_changed_def split: if_splits)
next
  assume "truthy r"
  then show "check_conflicts h r tool fcd w = (Inr r, w)"
    by (simp add: check_conflicts_def)
qed

theorem check_conflict_scan_witness:
  "fst (u_check checkhost (PyInt 0) ''kdiff3'' (Workingfilectx diskctx ''a.txt'') None disk3) = Inr (PyInt 1)
   \<and> check_conflicts checkhost (PyInt 0) ''kdiff3'' (Workingfilectx diskctx ''a.txt'') disk1 = (Inr (PyInt 0), disk1)"
proof -
  have cc: "u_toolbool checkhost ''kdiff3'' ''checkconflicts'' = Inr True"
    by (simp add: u_toolbool_def checkhost_def)
  have on: "True \<or> ''conflicts'' \<in> set (u_toollist checkhost ''kdiff3'' ''check'')" by simp
  have b3: "fctx_data checkhost (Workingfilectx diskctx ''a.txt'') disk3 = Inr (Some markerdata)"
    by (simp add: disk3_def world0_def checkhost_def host0_def)
  have b1: "fctx_data checkhost (Workingfilectx diskctx ''a.txt'') disk1 = Inr (Some ''L'')"
    by (simp add: disk1_def world0_def checkhost_def host0_def)
  obtain r1 w1 where run: "u_check checkhost (PyInt 0) ''kdiff3'' (Workingfilectx diskctx ''a.txt'') None disk3 = (r1, w1)"
    by (cases "u_check checkhost (PyInt 0) ''kdiff3'' (Workingfilectx diskctx ''a.txt'') None disk3")
  have ret: "\<exists>v. r1 = Inr v"
    using run
    by (auto simp: u_check_def andthen_def pure_result_def check_conflicts_def check_prompt_def
        check_changed_def check_fixeol_def u_toollist_def u_toolbool_def checkhost_def host0_def
        disk3_def world0_def markerdata_search split: if_splits)
  then obtain v where v: "r1 = Inr v" by blast
  from check_conflict_scan [OF cc on b3, of "PyInt 0" None v w1] markerdata_search run v
  have "v = PyInt 1" by simp
  with run v have first: "fst (u_check checkhost (PyInt 0) ''kdiff3'' (Workingfilectx diskctx ''a.txt'') None disk3) = Inr (PyInt 1)"
    by simp
  have nomark: "\<not> conflict_search ''L''"
    by (simp add: conflict_search_def marker_line_def startswith_def)
  from check_conflict_scan [OF cc on b1, of "PyInt 0" None] nomark
  have second: "check_conflicts checkhost (PyInt 0) ''kdiff3'' (Workingfilectx diskctx ''a.txt'') disk1 = (Inr (PyInt 0), disk1)"
    by blast
  from first second show ?thesis by simp
qed

text \<open>
  C8 (as stated) fails twice. With \<open>checkconflicts\<close> set, incoming status 2 and a
  destination full of markers, the final status is 2 and not 1. With \<open>conflicts\<close> and
  \<open>prompt\<close> in the \<open>check\<close> list, incoming status 0, a destination without markers and
  a user who answers no, the final status is 1 and not the incoming 0.
\<close>

theorem check_conflict_scan_counterexample:
  "u_toolbool checkhost ''kdiff3'' ''checkconflicts'' = Inr True
   \<and> fctx_data checkhost (Workingfilectx diskctx ''a.txt'') disk3 = Inr (Some markerdata)
   \<and> conflict_search markerdata
   \<and> fst (u_check checkhost (PyInt 2) ''kdiff3'' (Workingfilectx diskctx ''a.txt'') None disk3) = Inr (PyInt 2)
   \<and> ''conflicts'' \<in> set (u_toollist prompthost ''kdiff3'' ''check'')
   \<and> fctx_data prompthost (Workingfilectx diskctx ''a.txt'') disk1 = Inr (Some ''L'')
   \<and> \<not> conflict_search ''L''
   \<and> fst (u_check prompthost (PyInt 0) ''kdiff3'' (Workingfilectx diskctx ''a.txt'') None disk1) = Inr (PyInt 1)"
proof (intro conjI)
  show "conflict_search markerdata" by (rule markerdata_search)
  show "fst (u_check checkhost (PyInt 2) ''kdiff3'' (Workingfilectx diskctx ''a.txt'') None disk3) = Inr (PyInt 2)"
    by (simp add: u_check_def andthen_def pure_result_def check_conflicts_def check_prompt_def
        check_changed_def check_fixeol_def u_toollist_def checkhost_def host0_def)
  show "fst (u_check prompthost (PyInt 0) ''kdiff3'' (Workingfilectx diskctx ''a.txt'') None disk1) = Inr (PyInt 1)"
    by (simp add: u_check_def andthen_def pure_result_def check_conflicts_def check_prompt_def
        check_changed_def check_fixeol_def u_toollist_def u_toolbool_def prompthost_def host0_def
        disk1_def world0_def conflict_search_def marker_line_def startswith_def)
qed (simp_all add: u_toolbool_def u_toollist_def checkhost_def prompthost_def host0_def disk3_def disk1_def
      world0_def conflict_search_def marker_line_def startswith_def)

subsection \<open>The priority pool of the tool picker\<close>

text \<open>
  The verdict of the capability filter depends on the tool and the file properties
  only, not on the pattern or the world; the loop over the candidates returns the first
  candidate whose verdict is true.
\<close>

lemma check_result_indep:
  "fst (check h i mt t pat s b c w) = fst (check h i mt t pat' s b c w')"
proof (cases "truthy_str (u_findtool h i t)")
  case False
  then show ?thesis by (simp add: check_def Let_def)
next
  case found: True
  show ?thesis
  proof (cases "if s then u_toolbool h t ''symlink'' else Inr True")
    case (Inl e)
    with found show ?thesis by (simp add: check_def Let_def)
  next
    case sym: (Inr v)
    show ?thesis
    proof (cases v)
      case False
      with found sym show ?thesis by (simp add: check_def Let_def)
    next
      case symok: True
      show ?thesis
      proof (cases "if b then u_toolbool h t ''binary'' else Inr True")
        case (Inl e)
        with found sym symok show ?thesis by (simp add: check_def Let_def)
      next
        case bin: (Inr v2)
        show ?thesis
        proof (cases v2)
          case False
          with found sym symok bin show ?thesis by (simp add: check_def Let_def)
        next
          case binok: True
          show ?thesis
          proof (cases "c \<and> \<not> supportscd i mt (Some t)")
            case True
            with found sym symok bin binok show ?thesis by (simp add: check_def Let_def)
          next
            case cd: False
            show ?thesis
            proof (cases "if \<not> util_gui h then u_toolbool h t ''gui'' else Inr False")
              case (Inl e)
              with found sym symok bin binok cd show ?thesis by (simp add: check_def Let_def)
            next
              case gui: (Inr v3)
              with found sym symok bin binok cd show ?thesis
                by (cases v3) (simp_all add: check_def Let_def)
            qed
          qed
        qed
      qed
    qed
  qed
qed

lemma check_cases:
  obtains e w1 where "check h i mt t pat s b c w = (Inl e, w1)"
  | w1 where "check h i mt t pat s b c w = (Inr True, w1)"
  | w1 where "check h i mt t pat s b c w = (Inr False, w1)"
proof (cases "check h i mt t pat s b c w")
  case (Pair r w1)
  show ?thesis
  proof (cases r)
    case (Inl e)
    with Pair show ?thesis using that(1) by blast
  next
    case (Inr v)
    with Pair show ?thesis using that(2) that(3) by (cases v) auto
  qed
qed

lemma pick_first_some:
  "pick_first h i mt s b c ts w = (Inr (Some res), w1) \<Longrightarrow>
   \<exists>pre t post. ts = pre @ t # post
     \<and> (\<forall>x \<in> set pre. fst (check h i mt x None s b c w0) = Inr False)
     \<and> fst (check h i mt t None s b c w0) = Inr True
     \<and> quotedtool h i t = Inr res"
proof (induction ts arbitrary: w)
  case Nil
  then show ?case by simp
next
  case (Cons t ts)
  show ?case
  proof (cases rule: check_cases [of h i mt t None s b c w])
    case (1 e w2)
    with Cons.prems show ?thesis by simp
  next
    case (2 w2)
    with Cons.prems have q: "quotedtool h i t = Inr res"
      by (simp split: sum.splits)
    from 2 have "fst (check h i mt t None s b c w0) = Inr True"
      using check_result_indep [of h i mt t None s b c w0 None w] by simp
    with q have "t # ts = [] @ t # ts \<and> (\<forall>x \<in> set []. fst (check h i mt x None s b c w0) = Inr False)
        \<and> fst (check h i mt t None s b c w0) = Inr True \<and> quotedtool h i t = Inr res"
      by simp
    then show ?thesis by blast
  next
    case (3 w2)
    with Cons.prems have "pick_first h i mt s b c ts w2 = (Inr (Some res), w1)" by simp
    from Cons.IH [OF this] obtain pre u post where
      p: "ts = pre @ u # post" "\<forall>x \<in> set pre. fst (check h i mt x None s b c w0) = Inr False"
         "fst (check h i mt u None s b c w0) = Inr True" "quotedtool h i u = Inr res"
      by blast
    from 3 have f: "fst (check h i mt t None s b c w0) = Inr False"
      using check_result_indep [of h i mt t None s b c w0 None w] by simp
    from p f have "t # ts = (t # pre) @ u # post
        \<and> (\<forall>x \<in> set (t # pre). fst (check h i mt x None s b c w0) = Inr False)
        \<and> fst (check h i mt u None s b c w0) = Inr True \<and> quotedtool h i u = Inr res"
      by simp
    then show ?thesis by blast
  qed
qed

lemma pick_first_none:
  "pick_first h i mt s b c ts w = (Inr None, w1) \<Longrightarrow>
   \<forall>x \<in> set ts. fst (check h i mt x None s b c w0) = Inr False"
proof (induction ts arbitrary: w)
  case Nil
  then show ?case by simp
next
  case (Cons t ts)
  show ?case
  proof (cases rule: check_cases [of h i mt t None s b c w])
    case (1 e w2)
    with Cons.prems show ?thesis by simp
  next
    case (2 w2)
    with Cons.prems show ?thesis by (simp split: sum.splits)
  next
    case (3 w2)
    with Cons.prems have "pick_first h i mt s b c ts w2 = (Inr None, w1)" by simp
    from Cons.IH [OF this] have r: "\<forall>x \<in> set ts. fst (check h i mt x None s b c w0) = Inr False" .
    from 3 have f: "fst (check h i mt t None s b c w0) = Inr False"
      using check_result_indep [of h i mt t None s b c w0 None w] by simp
    from r f show ?thesis by simp
  qed
qed

lemma picktool_pool_prepend:
  assumes ct: "collect_tools h (ui_configitems h ''merge-tools'') ([], {}) = Inr (tools, disabled)"
      and ui: "ui_config h ''ui'' ''merge'' = Some u"
      and ne: "u \<noteq> []"
      and k: "u \<in> fst ` set tools \<or> changedelete"
      and p: "pick_first h i mt symlink binary changedelete (u # sorted_tools tools disabled @ [''hgmerge'']) w
                = (Inr found, w1)"
  shows "picktool_pool h i mt path binary symlink changedelete w =
     (case found of
        Some res \<Rightarrow> (Inr res, w1)
      | None \<Rightarrow>
          (if symlink \<or> binary \<or> changedelete then
             (Inr ('':prompt'', None),
              if \<not> changedelete then emit (Warn (''no tool found to merge '' @ path @ ''\<newline>'')) w1 else w1)
           else (Inr ('':merge'', None), w1)))"
proof -
  have eq: "pool_candidates (Some u) (sorted_tools tools disabled) = u # sorted_tools tools disabled @ [''hgmerge'']"
    using ne by (simp add: pool_candidates_def truthy_str_def strval_def)
  from k have cond: "(truthy_str (Some u) \<and> strval (Some u) \<notin> set (map fst tools) \<and> \<not> changedelete) = False"
    by (auto simp: strval_def)
  have len: "(length (u # sorted_tools tools disabled @ [''hgmerge'']) \<noteq> 0) = True" by simp
  show ?thesis
    by (cases found)
       (simp_all only: picktool_pool_def ct ui Let_def sum.case prod.case cond if_False eq p option.case
          len simp_thms)
qed

lemma poolhost_tools:
  "collect_tools poolhost (ui_configitems poolhost ''merge-tools'') ([], {})
     = Inr ([(''kdiff3'', 1), (''meld'', 5)], {})"
  by (simp add: poolhost_def host0_def u_toolstr_def u_toolbool_def pyint_def digits_value_def
      digitval_def isblank_def Let_def)

lemma poolhost_sorted: "sorted_tools [(''kdiff3'', 1), (''meld'', 5)] {} = [''meld'', ''kdiff3'']"
  by (simp add: sorted_tools_def)

lemmas pick_defs = check_def u_findtool_def findexternaltool_def regprobe_def u_toolstr_def
  u_toolstr_default_def u_toolbool_def quotedtool_def supportscd_def truthy_str_def strval_def
  host0_def Let_def

text \<open>
  C3 (as amended). In the priority-pool step, with \<^verbatim>\<open>ui.merge\<close> set to \<open>u\<close>: when \<open>u\<close>
  is no known tool name and \<open>changedelete\<close> is false, \<open>(u, u)\<close> is returned at once,
  with no capability check and no other candidate tried. Otherwise (\<open>u\<close> is known, or
  \<open>changedelete\<close> is true) the candidates are \<open>u\<close>, then the enabled tools by
  priority, then \<open>hgmerge\<close>; the first candidate \<open>t\<close> that passes the capability check
  is returned with its quoted path, every candidate before it having failed the check;
  when none passes, the last resort is \<open>:prompt\<close> for a symlink, binary or change/delete
  merge and \<open>:merge\<close> otherwise.
\<close>

theorem picktool_pool_uimerge:
  assumes ct: "collect_tools h (ui_configitems h ''merge-tools'') ([], {}) = Inr (tools, disabled)"
      and ui: "ui_config h ''ui'' ''merge'' = Some u"
      and ne: "u \<noteq> []"
  shows "(u \<notin> fst ` set tools \<and> \<not> changedelete
            \<longrightarrow> picktool_pool h i mt path binary symlink changedelete w = (Inr (u, Some u), w))
       \<and> (u \<in> fst ` set tools \<or> changedelete \<longrightarrow>
            (\<forall>res w1. pick_first h i mt symlink binary changedelete
                          (u # sorted_tools tools disabled @ [''hgmerge'']) w = (Inr (Some res), w1)
               \<longrightarrow> picktool_pool h i mt path binary symlink changedelete w = (Inr res, w1)
                 \<and> (\<exists>pre t post. u # sorted_tools tools disabled @ [''hgmerge''] = pre @ t # post
                      \<and> (\<forall>x \<in> set pre. fst (check h i mt x None symlink binary changedelete w) = Inr False)
                      \<and> fst (check h i mt t None symlink binary changedelete w) = Inr True
                      \<and> quotedtool h i t = Inr res))
          \<and> (\<forall>w1. pick_first h i mt symlink binary changedelete
                          (u # sorted_tools tools disabled @ [''hgmerge'']) w = (Inr None, w1)
               \<longrightarrow> (\<forall>x \<in> set (u # sorted_tools tools disabled @ [''hgmerge'']).
                       fst (check h i mt x None symlink binary changedelete w) = Inr False)
                 \<and> fst (picktool_pool h i mt path binary symlink changedelete w)
                     = Inr (if symlink \<or> binary \<or> changedelete then '':prompt'' else '':merge'', None)))"
proof (intro conjI impI allI)
  assume "u \<notin> fst ` set tools \<and> \<not> changedelete"
  with ct ui ne show "picktool_pool h i mt path binary symlink changedelete w = (Inr (u, Some u), w)"
    by (simp add: picktool_pool_def truthy_str_def strval_def)
next
  fix res w1
  assume k: "u \<in> fst ` set tools \<or> changedelete"
  assume p: "pick_first h i mt symlink binary changedelete
               (u # sorted_tools tools disabled @ [''hgmerge'']) w = (Inr (Some res), w1)"
  show "picktool_pool h i mt path binary symlink changedelete w = (Inr res, w1)"
    by (simp add: picktool_pool_prepend [OF ct ui ne k] p del: pick_first.simps)
  from pick_first_some [OF p, of w]
  show "\<exists>pre t post. u # sorted_tools tools disabled @ [''hgmerge''] = pre @ t # post
          \<and> (\<forall>x \<in> set pre. fst (check h i mt x None symlink binary changedelete w) = Inr False)
          \<and> fst (check h i mt t None symlink binary changedelete w) = Inr True
          \<and> quotedtool h i t = Inr res" .
next
  fix w1
  assume k: "u \<in> fst ` set tools \<or> changedelete"
  assume p: "pick_first h i mt symlink binary changedelete
               (u # sorted_tools tools disabled @ [''hgmerge'']) w = (Inr None, w1)"
  from pick_first_none [OF p, of w]
  show "\<forall>x \<in> set (u # sorted_tools tools disabled @ [''hgmerge'']).
          fst (check h i mt x None symlink binary changedelete w) = Inr False" .
  show "fst (picktool_pool h i mt path binary symlink changedelete w)
          = Inr (if symlink \<or> binary \<or> changedelete then '':prompt'' else '':merge'', None)"
    by (simp add: picktool_pool_prepend [OF ct ui ne k] p del: pick_first.simps)
qed

theorem picktool_pool_uimerge_witness:
  "picktool_pool (uihost ''mytool'') (Map.empty :: toolentry registry) e_mergetype ''a.txt'' False False False world0
     = (Inr (''mytool'', Some ''mytool''), world0)
   \<and> picktool_pool poolhost (Map.empty :: toolentry registry) e_mergetype ''a.txt'' False False False world0
     = (Inr (''kdiff3'', Some ''/usr/bin/kdiff3''), world0)"
proof -
  have ct1: "collect_tools (uihost ''mytool'') (ui_configitems (uihost ''mytool'') ''merge-tools'') ([], {})
      = Inr ([], {})"
    by (simp add: uihost_def host0_def)
  have ui1: "ui_config (uihost ''mytool'') ''ui'' ''merge'' = Some ''mytool''"
    by (simp add: uihost_def)
  have ne1: "''mytool'' \<noteq> []" by simp
  have first: "picktool_pool (uihost ''mytool'') (Map.empty :: toolentry registry) e_mergetype ''a.txt''
      False False False world0 = (Inr (''mytool'', Some ''mytool''), world0)"
    using picktool_pool_uimerge [OF ct1 ui1 ne1, of False Map.empty e_mergetype "''a.txt''" False False world0]
    by simp
  have ui2: "ui_config poolhost ''ui'' ''merge'' = Some ''kdiff3''"
    by (simp add: poolhost_def)
  have ne2: "''kdiff3'' \<noteq> []" by simp
  have known: "''kdiff3'' \<in> fst ` set [(''kdiff3'', 1::int), (''meld'', 5)] \<or> False" by simp
  have pf: "pick_first poolhost (Map.empty :: toolentry registry) e_mergetype False False False
      (''kdiff3'' # sorted_tools [(''kdiff3'', 1), (''meld'', 5)] {} @ [''hgmerge'']) world0
      = (Inr (Some (''kdiff3'', Some ''/usr/bin/kdiff3'')), world0)"
    by (simp add: poolhost_sorted) (simp add: pick_defs poolhost_def)
  from picktool_pool_uimerge [OF poolhost_tools ui2 ne2, of False Map.empty e_mergetype "''a.txt''" False False world0]
    known pf
  have second: "picktool_pool poolhost (Map.empty :: toolentry registry) e_mergetype ''a.txt''
      False False False world0 = (Inr (''kdiff3'', Some ''/usr/bin/kdiff3''), world0)"
    by blast
  from first second show ?thesis by simp
qed

text \<open>
  C3 (as stated) fails in both directions. With \<^verbatim>\<open>ui.merge = mytool\<close>, unknown and not
  to be found, and \<open>changedelete\<close> false, the picker returns \<open>(mytool, mytool)\<close> although
  \<open>mytool\<close> fails the capability check and no candidate of the specification's list
  passes it. With \<^verbatim>\<open>ui.merge = :other\<close>, unknown to \<^verbatim>\<open>merge-tools\<close>, and
  \<open>changedelete\<close> true, the picker returns \<open>:other\<close>, which the specification's list does
  not hold.
\<close>

theorem picktool_pool_uimerge_counterexample:
  "fst (picktool_pool (uihost ''mytool'') (Map.empty :: toolentry registry) e_mergetype ''a.txt''
          False False False world0) = Inr (''mytool'', Some ''mytool'')
   \<and> fst (check (uihost ''mytool'') (Map.empty :: toolentry registry) e_mergetype ''mytool'' None
            False False False world0) = Inr False
   \<and> fst (pick_first (uihost ''mytool'') (Map.empty :: toolentry registry) e_mergetype False False False
            (spec_pool_candidates (Some ''mytool'') [] False []) world0) = Inr None
   \<and> fst (picktool_pool (uihost '':other'') registry1 e_mergetype ''a.txt'' False False True world0)
       = Inr ('':other'', Some '':other'')
   \<and> '':other'' \<notin> set (spec_pool_candidates (Some '':other'') [] True [])"
proof (intro conjI)
  show "fst (picktool_pool (uihost ''mytool'') (Map.empty :: toolentry registry) e_mergetype ''a.txt''
          False False False world0) = Inr (''mytool'', Some ''mytool'')"
    by (simp add: picktool_pool_def uihost_def host0_def truthy_str_def strval_def)
  show "fst (check (uihost ''mytool'') (Map.empty :: toolentry registry) e_mergetype ''mytool'' None
            False False False world0) = Inr False"
    by (simp add: pick_defs uihost_def)
  show "fst (pick_first (uihost ''mytool'') (Map.empty :: toolentry registry) e_mergetype False False False
            (spec_pool_candidates (Some ''mytool'') [] False []) world0) = Inr None"
    by (simp add: spec_pool_candidates_def pick_defs uihost_def)
  show "fst (picktool_pool (uihost '':other'') registry1 e_mergetype ''a.txt'' False False True world0)
       = Inr ('':other'', Some '':other'')"
    by (simp add: picktool_pool_def pool_candidates_def sorted_tools_def pick_defs uihost_def
        registry1_def other_entry_def)
  show "'':other'' \<notin> set (spec_pool_candidates (Some '':other'') [] True [])"
    by (simp add: spec_pool_candidates_def strval_def)
qed

subsection \<open>The backup after a merge\<close>




lemma makebackup_has_place:
  "u_makebackup h wctx fcd pre w0 = (Inr (Some b), w) \<Longrightarrow> \<exists>place. floc h b = Some place"
  unfolding u_makebackup_def wctx_getitem_def Let_def
  by (auto split: if_splits sum.splits prod.splits option.splits)

text \<open>
  What the steps of a run leave of the store. Messages do not touch it; a write of the
  simple merge and the restore of the backup change the place of local only; the
  post-check rewrites the working file only; the failure handlers only emit messages or
  raise. So the \<^verbatim>\<open>try\<close> block leaves a place that is neither of them as the strategy
  leaves it.
\<close>

lemma emit_fs: "fs (emit e w) = fs w"
  by (simp add: emit_def)

lemma fctx_write_frame:
  "fctx_write h f d fl w = (r, w1) \<Longrightarrow> floc h f \<noteq> Some place \<Longrightarrow> fs w1 place = fs w place"
  by (auto simp: fctx_write_def split: option.splits)

lemma simplemerge_frame:
  "simplemerge h lc bc oc opts w = (r, w1) \<Longrightarrow> floc h lc \<noteq> Some place \<Longrightarrow> fs w1 place = fs w place"
  unfolding simplemerge_def
  by (auto split: sum.splits prod.splits dest!: fctx_write_frame simp: emit_fs)


















lemma merge_frame:
  "u_merge h a mode w = (r, w1) \<Longrightarrow> floc h (a_fcd a) \<noteq> Some place \<Longrightarrow> fs w1 place = fs w place"
  unfolding u_merge_def
  by (auto split: prod.splits sum.splits dest: simplemerge_frame)


lemma iunion_frame:
  "u_iunion h a w = (r, w1) \<Longrightarrow> floc h (a_fcd a) \<noteq> Some place \<Longrightarrow> fs w1 place = fs w place"
  unfolding u_iunion_def by (rule merge_frame)







end
